theory Spec2Isabelle
  imports Complex_Main
begin

section \<open>DMR5G tile catalogue: model of \<open>src/cuzk_tools/dmr5g.py\<close>\<close>

text \<open>
  The module resolves which tiles of the DMR5G elevation survey cover a point or a
  region and keeps a cache of downloaded tiles. The class \<open>Dmr5gParser\<close> is modelled
  function by function. Conventions of the model:

  \<^item> Coordinates are Python floats in the source and reals in the model. The normalizer
    and the number of candidates are computed with the exact operations \<open>+\<close>, \<open>-\<close>, \<open>/\<close>
    and \<open>%\<close>; the normalizer is also given with rounded arithmetic
    (\<open>fix_tile_coords_fl\<close>). \<open>Rectangle\<close> and \<open>c_r_intersects\<close>, whose decisions rounding
    changes, round the result of every operation to float64 (\<open>round_f64\<close>).
  \<^item> Python integers are \<open>int\<close>; a raised exception is the \<open>Inl\<close> of a sum.
  \<^item> Capabilities of libraries the module calls but does not contain (pyproj
    transforms, the rtree queries, shapely's \<open>intersects\<close>, the network, the zip and
    JSON readers) are fields of the record \<open>ext\<close>: every theorem holds for every
    behaviour of them.
\<close>

subsection \<open>Exceptions\<close>

datatype index_msg =
    IdOutOfBounds int nat
  | OutOfRange

datatype tile_msg = NoneOfSelected | OnlyOneSelected | NoTileFound

datatype error =
    IndexError index_msg
  | PointOutOfTileError tile_msg "real \<times> real"
  | ValueError
  | AttributeError
  | TypeError
  | RTreeError
  | URLError
  | ParseError
  | BadZipFile

text \<open>Sequencing of calls that may raise: the first exception aborts the rest.\<close>

definition bindE :: "error + 'a \<Rightarrow> ('a \<Rightarrow> error + 'b) \<Rightarrow> error + 'b" where
  "bindE r f = (case r of Inl e \<Rightarrow> Inl e | Inr v \<Rightarrow> f v)"

text \<open>Python list indexing \<open>xs[i]\<close>: a negative index counts from the end.\<close>

definition py_index :: "'a list \<Rightarrow> int \<Rightarrow> error + 'a" where
  "py_index xs i =
     (let len = int (length xs); j = (if i < 0 then i + len else i)
      in if 0 \<le> j \<and> j < len then Inr (xs ! nat j) else Inl (IndexError OutOfRange))"

subsection \<open>Planar polygons (shapely) and numpy arrays\<close>

text \<open>
  A shapely \<open>Polygon\<close> without holes is represented by \<open>exterior.coords\<close>, the closed
  ring of its vertices (first vertex repeated at the end), or \<open>[]\<close> when empty. The
  constructor closes an open ring and refuses a ring of fewer than four coordinates.
\<close>

type_synonym point = "real \<times> real"
type_synonym polygon = "point list"

definition Polygon :: "point list \<Rightarrow> error + polygon" where
  "Polygon cs =
     (if cs = [] then Inr []
      else let ring = (if hd cs = last cs then cs else cs @ [hd cs])
           in if length ring < 4 then Inl ValueError else Inr ring)"

text \<open>Python's \<open>x % s\<close> on floats: the remainder of floor division.\<close>

definition pymod :: "real \<Rightarrow> real \<Rightarrow> real" where
  "pymod x s = x - s * of_int \<lfloor>x / s\<rfloor>"

text \<open>numpy: \<open>a % s\<close> on an array, \<open>a[mask]\<close>, \<open>~mask\<close> and \<open>a[mask] = vs\<close>.\<close>

definition np_mod :: "real list \<Rightarrow> real \<Rightarrow> real list" where
  "np_mod a s = map (\<lambda>v. pymod v s) a"

fun mask_select :: "'a list \<Rightarrow> bool list \<Rightarrow> 'a list" where
  "mask_select (v # vs) (m # ms) = (if m then v # mask_select vs ms else mask_select vs ms)"
| "mask_select _ _ = []"

definition mask_not :: "bool list \<Rightarrow> bool list" where
  "mask_not ms = map Not ms"

fun mask_assign :: "'a list \<Rightarrow> bool list \<Rightarrow> 'a list \<Rightarrow> 'a list" where
  "mask_assign (v # vs) (m # ms) ws =
     (if m then (case ws of [] \<Rightarrow> v # mask_assign vs ms [] | w # ws' \<Rightarrow> w # mask_assign vs ms ws')
      else v # mask_assign vs ms ws)"
| "mask_assign vs [] ws = vs"
| "mask_assign [] ms ws = []"

text \<open>
  \<open>fix_tile_coords\<close> (lines 197-213). \<open>a[mask] -= b[mask]\<close> reads the selected entries,
  subtracts and stores them back in place.
\<close>

definition fix_tile_coords :: "polygon \<Rightarrow> error + polygon" where
  "fix_tile_coords tile =
     (let x = map fst tile; y = map snd tile;
          x_fixed = x; y_fixed = y;
          x_mask = map (\<lambda>r. r < 1250) (np_mod x 2500);
          x_fixed = mask_assign x_fixed x_mask
                      (map2 (\<lambda>a r. a - r) (mask_select x_fixed x_mask)
                                             (mask_select (np_mod x 2500) x_mask));
          x_fixed = mask_assign x_fixed (mask_not x_mask)
                      (map2 (\<lambda>a d. a + d) (mask_select x_fixed (mask_not x_mask))
                         (map (\<lambda>r. 2500 - r) (mask_select (np_mod x 2500) (mask_not x_mask))));
          y_mask = map (\<lambda>r. r < 1000) (np_mod y 2000);
          y_fixed = mask_assign y_fixed y_mask
                      (map2 (\<lambda>a r. a - r) (mask_select y_fixed y_mask)
                                             (mask_select (np_mod y 2000) y_mask));
          y_fixed = mask_assign y_fixed (mask_not y_mask)
                      (map2 (\<lambda>a d. a + d) (mask_select y_fixed (mask_not y_mask))
                         (map (\<lambda>r. 2000 - r) (mask_select (np_mod y 2000) (mask_not y_mask))))
      in Polygon (zip x_fixed y_fixed))"

subsection \<open>Point in polygon (shapely's \<open>contains\<close>)\<close>

text \<open>
  shapely is not part of the repository. \<open>Polygon.contains(Point)\<close> is modelled from its
  documented meaning: the point lies in the interior of the polygon; a point of the
  boundary is not contained. The interior of a ring is decided by the parity of the
  edges a ray from the point crosses.
\<close>

fun edges :: "polygon \<Rightarrow> (point \<times> point) list" where
  "edges (a # b # rest) = (a, b) # edges (b # rest)"
| "edges _ = []"

definition on_segment :: "point \<Rightarrow> point \<Rightarrow> point \<Rightarrow> bool" where
  "on_segment a b p =
     ((fst b - fst a) * (snd p - snd a) = (snd b - snd a) * (fst p - fst a)
      \<and> min (fst a) (fst b) \<le> fst p \<and> fst p \<le> max (fst a) (fst b)
      \<and> min (snd a) (snd b) \<le> snd p \<and> snd p \<le> max (snd a) (snd b))"

definition on_boundary :: "polygon \<Rightarrow> point \<Rightarrow> bool" where
  "on_boundary ring p = list_ex (\<lambda>e. on_segment (fst e) (snd e) p) (edges ring)"

definition crosses :: "point \<Rightarrow> point \<Rightarrow> point \<Rightarrow> bool" where
  "crosses a b p =
     ((snd p < snd a) \<noteq> (snd p < snd b)
      \<and> fst p < (fst b - fst a) * (snd p - snd a) / (snd b - snd a) + fst a)"

definition polygon_contains :: "polygon \<Rightarrow> point \<Rightarrow> bool" where
  "polygon_contains ring p =
     (\<not> on_boundary ring p
      \<and> odd (length (filter (\<lambda>e. crosses (fst e) (snd e) p) (edges ring))))"

subsection \<open>The catalogue document and the bounding-box index\<close>

text \<open>
  An \<open>atom:entry\<close> of the catalogue. A child element may be missing (\<open>find\<close> returns
  \<open>None\<close>) or present with its text, which is \<open>None\<close> when the element is empty. The
  text of \<open>georss:polygon\<close> is kept as its whitespace-separated tokens, each with the
  float it denotes (\<open>None\<close>: \<open>float\<close> raises \<open>ValueError\<close>).
\<close>

datatype child = NoChild | Child "string option"

record entry =
  georss_polygon :: "real option list option"
  atom_id :: child
  atom_updated :: child

text \<open>
  The parsed document: \<open>findall_entry\<close> are the entries that are children of the root
  (\<open>root.findall\<close>), \<open>iter_entry\<close> all entries in document order (\<open>root.iter\<close>).
\<close>

record xml_doc =
  findall_entry :: "entry list"
  iter_entry :: "entry list"

text \<open>
  The rtree index holds one box \<open>(left, bottom, right, top)\<close> per inserted id, in
  insertion order; \<open>insert\<close> refuses a box whose minimum exceeds its maximum.
\<close>

type_synonym bbox = "real \<times> real \<times> real \<times> real"
type_synonym rtree = "(int \<times> bbox) list"

fun rtree_insert :: "rtree \<Rightarrow> int \<Rightarrow> bbox \<Rightarrow> error + rtree" where
  "rtree_insert idx i (left, bottom, right, top') =
     (if left \<le> right \<and> bottom \<le> top' then Inr (idx @ [(i, (left, bottom, right, top'))])
      else Inl RTreeError)"

subsection \<open>External capabilities\<close>

datatype retrieved = Retrieved string | RetrieveFailed error "string option"

record ext =
  wgs_to_sjtsk :: "real \<Rightarrow> real \<Rightarrow> point"
  sjtsk_to_wgs :: "real \<Rightarrow> real \<Rightarrow> point"
  idx_intersection :: "rtree \<Rightarrow> point \<Rightarrow> int list"
  idx_nearest :: "rtree \<Rightarrow> point \<Rightarrow> int \<Rightarrow> int list"
  shp_intersects :: "polygon \<Rightarrow> polygon \<Rightarrow> bool"
  net_urlopen :: "string \<Rightarrow> error + string"
  tile_doc_zip_url :: "string \<Rightarrow> error + string option"
  net_urlretrieve :: "string \<Rightarrow> retrieved"
  zip_members :: "string \<Rightarrow> (string \<times> string) list option"
  json_load :: "string \<Rightarrow> (string \<times> string option) list option"
  json_dumps :: "(string \<times> string option) list \<Rightarrow> string"

text \<open>
  \<^item> \<open>wgs_to_sjtsk lat lon\<close>, \<open>sjtsk_to_wgs x y\<close>: the pyproj transformers.
  \<^item> \<open>idx_intersection\<close>, \<open>idx_nearest\<close>: the rtree queries, with the ids in the order
    the library yields them.
  \<^item> \<open>net_urlopen url\<close>: \<open>urlopen(url).read().decode()\<close>, or the exception it raises.
  \<^item> \<open>tile_doc_zip_url data\<close>: the text of the \<open>atom:id\<close> of the first entry of the
    document \<open>ET.fromstring(data)\<close>, or the exception parsing or \<open>find\<close> raises.
  \<^item> \<open>net_urlretrieve url\<close>: the bytes \<open>urlretrieve\<close> stores, or its exception together
    with what it had written to the target file before failing (\<open>None\<close>: nothing).
  \<^item> \<open>zip_members bytes\<close>: the named members of an archive (\<open>None\<close>: not a zip file).
  \<^item> \<open>json_load\<close>, \<open>json_dumps\<close>: the JSON reader (\<open>None\<close>: it raises) and writer.
\<close>

subsection \<open>The parser object\<close>

record parser =
  cache_dir :: string
  xml_root :: xml_doc
  n_entries :: nat
  tile_idx :: rtree
  tile_polygons :: "point list list"

text \<open>\<open>get_tiles\<close> (lines 158-185).\<close>

fun floats_of :: "real option list \<Rightarrow> error + real list" where
  "floats_of [] = Inr []"
| "floats_of (None # ts) = Inl ValueError"
| "floats_of (Some v # ts) = (case floats_of ts of Inl e \<Rightarrow> Inl e | Inr vs \<Rightarrow> Inr (v # vs))"

fun make_pairs :: "real list \<Rightarrow> error + point list" where
  "make_pairs [] = Inr []"
| "make_pairs [a] = Inl (IndexError OutOfRange)"
| "make_pairs (a # b # rest) =
     (case make_pairs rest of Inl e \<Rightarrow> Inl e | Inr ps \<Rightarrow> Inr ((a, b) # ps))"

definition py_setitem :: "'a list \<Rightarrow> int \<Rightarrow> 'a \<Rightarrow> error + 'a list" where
  "py_setitem xs i v =
     (let len = int (length xs); j = (if i < 0 then i + len else i)
      in if 0 \<le> j \<and> j < len then Inr (xs[nat j := v]) else Inl (IndexError OutOfRange))"

definition entry_box :: "real list \<Rightarrow> error + bbox" where
  "entry_box float_list =
     bindE (py_index float_list 1) (\<lambda>left.
     bindE (py_index float_list 0) (\<lambda>bottom.
     bindE (py_index float_list 3) (\<lambda>right.
     bindE (py_index float_list 4) (\<lambda>top'. Inr (left, bottom, right, top')))))"

fun get_tiles_loop ::
  "entry list \<Rightarrow> int \<Rightarrow> rtree \<Rightarrow> point list list \<Rightarrow> error + rtree \<times> point list list" where
  "get_tiles_loop [] i idx polygons = Inr (idx, polygons)"
| "get_tiles_loop (e # rest) i idx polygons =
     (case georss_polygon e of
        None \<Rightarrow> Inl AttributeError
      | Some tokens \<Rightarrow>
          (case floats_of tokens of
             Inl err \<Rightarrow> Inl err
           | Inr float_list \<Rightarrow>
               (case make_pairs float_list of
                  Inl err \<Rightarrow> Inl err
                | Inr pairs \<Rightarrow>
                    (case py_setitem polygons i pairs of
                       Inl err \<Rightarrow> Inl err
                     | Inr polygons' \<Rightarrow>
                         (case entry_box float_list of
                            Inl err \<Rightarrow> Inl err
                          | Inr box \<Rightarrow>
                              (case rtree_insert idx i box of
                                 Inl err \<Rightarrow> Inl err
                               | Inr idx' \<Rightarrow> get_tiles_loop rest (i + 1) idx' polygons'))))))"

definition get_tiles :: "xml_doc \<Rightarrow> nat \<Rightarrow> error + rtree \<times> point list list" where
  "get_tiles doc n =
     (let polygons = replicate n [(0, 0), (0, 0), (0, 0), (0, 0), (0, 0)]
      in get_tiles_loop (iter_entry doc) 0 [] polygons)"

text \<open>
  \<open>__init__\<close> (lines 89-106) once the catalogue document has been loaded: \<open>n\<close> counts the
  entries under the root, then the index and the footprints are built.
\<close>

definition Dmr5gParser :: "string \<Rightarrow> xml_doc \<Rightarrow> error + parser" where
  "Dmr5gParser dir doc =
     (let n = length (findall_entry doc)
      in bindE (get_tiles doc n) (\<lambda>r.
           Inr \<lparr>cache_dir = dir, xml_root = doc, n_entries = n,
                tile_idx = fst r, tile_polygons = snd r\<rparr>))"

definition get_intersection_tile_ids :: "ext \<Rightarrow> parser \<Rightarrow> point \<Rightarrow> int list" where
  "get_intersection_tile_ids E self point = idx_intersection E (tile_idx self) point"

text \<open>\<open>get_tile\<close> (lines 191-195).\<close>

definition get_tile :: "parser \<Rightarrow> int \<Rightarrow> error + point list" where
  "get_tile self id' =
     (if id' \<ge> int (n_entries self) then Inl (IndexError (IdOutOfBounds id' (n_entries self)))
      else py_index (tile_polygons self) id')"

subsection \<open>Point resolution\<close>

text \<open>
  The footprint of a tile in planar coordinates, normalized. The source writes these
  three steps out in each resolver (lines 223-225, 236-238, 277-279, 303-305):
  \<open>get_tile\<close>, then \<open>Polygon(np.array(WGS_TO_SJTSK.transform(...)).T)\<close>, which indexes the
  two columns of the footprint and so raises \<open>IndexError\<close> on an empty one, then
  \<open>fix_tile_coords\<close>.
\<close>

definition to_sjtsk_polygon :: "ext \<Rightarrow> point list \<Rightarrow> error + polygon" where
  "to_sjtsk_polygon E tile =
     (if tile = [] then Inl (IndexError OutOfRange)
      else Polygon (map (\<lambda>v. wgs_to_sjtsk E (fst v) (snd v)) tile))"

definition tile_sjtsk_fixed :: "ext \<Rightarrow> parser \<Rightarrow> int \<Rightarrow> error + polygon" where
  "tile_sjtsk_fixed E self id' =
     bindE (get_tile self id') (\<lambda>tile.
     bindE (to_sjtsk_polygon E tile) (\<lambda>tile_sjtsk.
     fix_tile_coords tile_sjtsk))"

text \<open>\<open>get_tile_id\<close> (lines 215-245); the loop of lines 222-232 first.\<close>

fun get_tile_id_loop :: "ext \<Rightarrow> parser \<Rightarrow> point \<Rightarrow> point \<Rightarrow> int list \<Rightarrow> error + int" where
  "get_tile_id_loop E self point point_sjtsk [] =
     Inl (PointOutOfTileError NoneOfSelected point)"
| "get_tile_id_loop E self point point_sjtsk (id' # ids) =
     (case tile_sjtsk_fixed E self id' of
        Inl err \<Rightarrow> Inl err
      | Inr fixed \<Rightarrow>
          if polygon_contains fixed point_sjtsk then Inr id'
          else get_tile_id_loop E self point point_sjtsk ids)"

definition get_tile_id :: "ext \<Rightarrow> parser \<Rightarrow> point \<Rightarrow> error + int" where
  "get_tile_id E self point =
     (let ids = get_intersection_tile_ids E self point;
          point_sjtsk = wgs_to_sjtsk E (snd point) (fst point)
      in if length ids > 1 then get_tile_id_loop E self point point_sjtsk ids
         else if length ids = 1 then
           (let id' = ids ! 0
            in bindE (tile_sjtsk_fixed E self id') (\<lambda>fixed.
                 if \<not> polygon_contains fixed point_sjtsk
                 then Inl (PointOutOfTileError OnlyOneSelected point)
                 else Inr id'))
         else Inl (PointOutOfTileError NoTileFound point))"

subsection \<open>Rounding to float64\<close>

text \<open>
  \<open>round_f64\<close> rounds a real to the nearest number with a significand of 53 bits, a tie
  to the even significand, as a float64 operation rounds its exact result. \<open>binade\<close> finds
  the exponent \<open>e\<close> with \<open>2 ^ e \<le> a < 2 ^ (e + 1)\<close> in at most as many steps as its first
  argument, and 2200 steps cover the exponents of float64. Overflow and subnormal
  numbers are left out.
\<close>

definition round_half_even :: "real \<Rightarrow> int" where
  "round_half_even q =
     (let f = \<lfloor>q\<rfloor>; d = q - of_int f
      in if d < 1 / 2 then f else if 1 / 2 < d then f + 1 else if even f then f else f + 1)"

fun binade :: "nat \<Rightarrow> real \<Rightarrow> int \<Rightarrow> int" where
  "binade 0 a e = e"
| "binade (Suc n) a e =
     (if 2 \<le> a then binade n (a / 2) (e + 1)
      else if a < 1 then binade n (a * 2) (e - 1)
      else e)"

definition round_f64 :: "real \<Rightarrow> real" where
  "round_f64 v =
     (if v = 0 then 0
      else let e = binade 2200 \<bar>v\<bar> 0; ulp = 2 powi (e - 52)
           in of_int (round_half_even (v / ulp)) * ulp)"

subsection \<open>Radius and rectangle resolution\<close>

record circle =
  circle_x :: real
  circle_y :: real
  circle_r :: real

record rectangle =
  rect_x :: real
  rect_y :: real
  rect_w :: real
  rect_h :: real

definition Circle :: "point \<Rightarrow> real \<Rightarrow> circle" where
  "Circle center radius = \<lparr>circle_x = fst center, circle_y = snd center, circle_r = radius\<rparr>"

text \<open>\<open>exterior.coords.xy\<close>: the array of the x and the array of the y coordinates.\<close>

definition coords_xy :: "polygon \<Rightarrow> real list \<times> real list" where
  "coords_xy p = (map fst p, map snd p)"

text \<open>
  \<open>Rectangle\<close> (lines 72-81) and \<open>c_r_intersects\<close> (lines 247-264) compute on float64:
  the result of each \<open>+\<close>, \<open>-\<close>, \<open>/\<close> and \<open>** 2\<close> is rounded; \<open>abs\<close> and the comparisons
  are exact.
\<close>

definition Rectangle :: "real list \<times> real list \<Rightarrow> error + rectangle" where
  "Rectangle points =
     bindE (py_index (fst points) 0) (\<lambda>l.
     bindE (py_index (snd points) 0) (\<lambda>b.
     bindE (py_index (fst points) 1) (\<lambda>r.
     bindE (py_index (snd points) 2) (\<lambda>t.
       Inr \<lparr>rect_x = round_f64 (round_f64 (l + r) / 2), rect_y = round_f64 (round_f64 (b + t) / 2),
            rect_w = round_f64 (r - l), rect_h = round_f64 (t - b)\<rparr>))))"

definition c_r_intersects :: "circle \<Rightarrow> rectangle \<Rightarrow> bool" where
  "c_r_intersects c rect =
     (let circleDistanceX = \<bar>round_f64 (circle_x c - rect_x rect)\<bar>;
          circleDistanceY = \<bar>round_f64 (circle_y c - rect_y rect)\<bar>
      in if circleDistanceX > round_f64 (round_f64 (rect_w rect / 2) + circle_r c) then False
         else if circleDistanceY > round_f64 (round_f64 (rect_h rect / 2) + circle_r c) then False
         else if circleDistanceX \<le> round_f64 (rect_w rect / 2) then True
         else if circleDistanceY \<le> round_f64 (rect_h rect / 2) then True
         else (let cornerDistance_sq =
                     round_f64
                       (round_f64 ((round_f64 (circleDistanceX - round_f64 (rect_w rect / 2)))\<^sup>2)
                        + round_f64 ((round_f64 (circleDistanceY - round_f64 (rect_h rect / 2)))\<^sup>2))
               in cornerDistance_sq \<le> round_f64 ((circle_r c)\<^sup>2)))"

text \<open>
  The number of candidates asked of the index (lines 271 and 297, the same expression):
  \<open>int((2+2*np.floor((1.1+np.floor(radius/1000))/2))**2)\<close>. \<open>np.floor\<close> yields a float,
  \<open>int\<close> truncates towards zero.
\<close>

definition py_int :: "real \<Rightarrow> int" where
  "py_int v = (if 0 \<le> v then \<lfloor>v\<rfloor> else \<lceil>v\<rceil>)"

definition necessary_num_near_tiles :: "real \<Rightarrow> int" where
  "necessary_num_near_tiles radius =
     py_int ((2 + 2 * real_of_int \<lfloor>(1.1 + real_of_int \<lfloor>radius / 1000\<rfloor>) / 2\<rfloor>)\<^sup>2)"

text \<open>\<open>get_tile_ids\<close> (lines 267-284); the loop of lines 276-282 first.\<close>

fun get_tile_ids_loop ::
  "ext \<Rightarrow> parser \<Rightarrow> point \<Rightarrow> real \<Rightarrow> int list \<Rightarrow> int list \<Rightarrow> error + int list" where
  "get_tile_ids_loop E self point_sjtsk radius [] ids = Inr ids"
| "get_tile_ids_loop E self point_sjtsk radius (id' # tile_ids) ids =
     (case tile_sjtsk_fixed E self id' of
        Inl err \<Rightarrow> Inl err
      | Inr fixed \<Rightarrow>
          (case Rectangle (coords_xy fixed) of
             Inl err \<Rightarrow> Inl err
           | Inr rect \<Rightarrow>
               if c_r_intersects (Circle point_sjtsk radius) rect
               then get_tile_ids_loop E self point_sjtsk radius tile_ids (ids @ [id'])
               else get_tile_ids_loop E self point_sjtsk radius tile_ids ids))"

definition get_tile_ids :: "ext \<Rightarrow> parser \<Rightarrow> point \<Rightarrow> real \<Rightarrow> error + int list" where
  "get_tile_ids E self point_sjtsk radius =
     (let point_wgs = sjtsk_to_wgs E (fst point_sjtsk) (snd point_sjtsk);
          tile_ids = idx_nearest E (tile_idx self) (snd point_wgs, fst point_wgs)
                       (necessary_num_near_tiles radius)
      in get_tile_ids_loop E self point_sjtsk radius tile_ids [])"

text \<open>\<open>get_tile_ids_rect\<close> (lines 286-310); the corners are numpy vectors of length two.\<close>

fun get_tile_ids_rect_loop ::
  "ext \<Rightarrow> parser \<Rightarrow> polygon \<Rightarrow> int list \<Rightarrow> int list \<Rightarrow> error + int list" where
  "get_tile_ids_rect_loop E self poly2check [] ids = Inr ids"
| "get_tile_ids_rect_loop E self poly2check (id' # tile_ids) ids =
     (case tile_sjtsk_fixed E self id' of
        Inl err \<Rightarrow> Inl err
      | Inr fixed \<Rightarrow>
          if shp_intersects E poly2check fixed
          then get_tile_ids_rect_loop E self poly2check tile_ids (ids @ [id'])
          else get_tile_ids_rect_loop E self poly2check tile_ids ids)"

definition get_tile_ids_rect ::
  "ext \<Rightarrow> parser \<Rightarrow> point \<Rightarrow> point \<Rightarrow> point \<Rightarrow> point \<Rightarrow> error + int list" where
  "get_tile_ids_rect E self tl_sjtsk tr_sjtsk bl_sjtsk br_sjtsk =
     bindE (Polygon [tl_sjtsk, bl_sjtsk, br_sjtsk, tr_sjtsk]) (\<lambda>poly2check.
       let centre_point =
             ((fst tl_sjtsk + fst br_sjtsk + fst tr_sjtsk + fst bl_sjtsk) / 4,
              (snd tl_sjtsk + snd br_sjtsk + snd tr_sjtsk + snd bl_sjtsk) / 4);
           centre_point_wgs = sjtsk_to_wgs E (fst centre_point) (snd centre_point);
           radius = sqrt ((fst tr_sjtsk - fst bl_sjtsk)\<^sup>2 + (snd tr_sjtsk - snd bl_sjtsk)\<^sup>2) / 2;
           tile_ids = idx_nearest E (tile_idx self) (snd centre_point_wgs, fst centre_point_wgs)
                        (necessary_num_near_tiles radius)
       in get_tile_ids_rect_loop E self poly2check tile_ids [])"

subsection \<open>Catalogue lookups and the tile download\<close>

text \<open>\<open>get_tile_xml\<close> (lines 319-323) and \<open>get_tile_update_date\<close> (lines 334-338): a
  function whose loop ends without \<open>return\<close> yields \<open>None\<close>.\<close>

fun get_tile_xml_loop :: "entry list \<Rightarrow> int \<Rightarrow> int \<Rightarrow> error + string option" where
  "get_tile_xml_loop [] i id' = Inr None"
| "get_tile_xml_loop (e # rest) i id' =
     (if i = id' then (case atom_id e of NoChild \<Rightarrow> Inl AttributeError | Child tile_url \<Rightarrow> Inr tile_url)
      else get_tile_xml_loop rest (i + 1) id')"

definition get_tile_xml :: "parser \<Rightarrow> int \<Rightarrow> error + string option" where
  "get_tile_xml self id' = get_tile_xml_loop (iter_entry (xml_root self)) 0 id'"

fun get_tile_update_date_loop :: "entry list \<Rightarrow> int \<Rightarrow> int \<Rightarrow> error + string option" where
  "get_tile_update_date_loop [] i id' = Inr None"
| "get_tile_update_date_loop (e # rest) i id' =
     (if i = id' then
        (case atom_updated e of NoChild \<Rightarrow> Inl AttributeError | Child update_date \<Rightarrow> Inr update_date)
      else get_tile_update_date_loop rest (i + 1) id')"

definition get_tile_update_date :: "parser \<Rightarrow> int \<Rightarrow> error + string option" where
  "get_tile_update_date self id' = get_tile_update_date_loop (iter_entry (xml_root self)) 0 id'"

text \<open>Python's \<open>s.find(sub)\<close> and the slice \<open>s[start:stop]\<close>.\<close>

fun str_find_from :: "string \<Rightarrow> string \<Rightarrow> int \<Rightarrow> int" where
  "str_find_from [] sub i = (if sub = [] then i else - 1)"
| "str_find_from (c # cs) sub i =
     (if take (length sub) (c # cs) = sub then i else str_find_from cs sub (i + 1))"

definition str_find :: "string \<Rightarrow> string \<Rightarrow> int" where
  "str_find s sub = str_find_from s sub 0"

definition py_slice :: "'a list \<Rightarrow> int \<Rightarrow> int \<Rightarrow> 'a list" where
  "py_slice s start stop =
     (let len = int (length s);
          a = (if start < 0 then max (start + len) 0 else min start len);
          b = (if stop < 0 then max (stop + len) 0 else min stop len)
      in if a < b then take (nat (b - a)) (drop (nat a) s) else [])"

text \<open>\<open>get_tile_code\<close> (lines 312-317): \<open>None.find\<close> raises \<open>AttributeError\<close>.\<close>

definition get_tile_code :: "parser \<Rightarrow> int \<Rightarrow> error + string" where
  "get_tile_code self id' =
     bindE (get_tile_xml self id') (\<lambda>tile_url.
       case tile_url of
         None \<Rightarrow> Inl AttributeError
       | Some url \<Rightarrow>
           (let tile_id_index = str_find url ''CUZK_DMR5G-SJTSK_'' + int (length ''CUZK_DMR5G-SJTSK_'');
                tile_id = py_slice url tile_id_index (- 4)
            in Inr tile_id))"

text \<open>\<open>open_url\<close> (lines 152-156): \<open>urlopen(None)\<close> raises \<open>AttributeError\<close>.\<close>

definition open_url :: "ext \<Rightarrow> string option \<Rightarrow> error + string" where
  "open_url E url = (case url of None \<Rightarrow> Inl AttributeError | Some u \<Rightarrow> net_urlopen E u)"

text \<open>\<open>get_tile_zip\<close> (lines 325-332).\<close>

definition get_tile_zip :: "ext \<Rightarrow> parser \<Rightarrow> int \<Rightarrow> error + string option" where
  "get_tile_zip E self id' =
     bindE (get_tile_xml self id') (\<lambda>tile_url.
     bindE (open_url E tile_url) (\<lambda>tile_xml_data.
     tile_doc_zip_url E tile_xml_data))"

text \<open>
  The cache directory: file name to content. Every file operation of the source is taken
  to succeed (no permission or disk errors). \<open>dict_set\<close> is \<open>d[k] = v\<close> on a dict, which
  keeps the position of a key already present.
\<close>

type_synonym files = "string \<rightharpoonup> string"

fun dict_set :: "('k \<times> 'v) list \<Rightarrow> 'k \<Rightarrow> 'v \<Rightarrow> ('k \<times> 'v) list" where
  "dict_set [] k v = [(k, v)]"
| "dict_set ((k', v') # d) k v = (if k' = k then (k, v) # d else (k', v') # dict_set d k v)"

text \<open>
  \<open>download_tile\<close> (lines 340-378). The bare \<open>except\<close> covers \<open>get_tile_zip\<close> alone; the
  \<open>else\<close> branch runs unguarded. \<open>urlretrieve(None, ...)\<close> raises \<open>TypeError\<close>. Opening the
  manifest with mode \<open>w\<close> empties it before \<open>get_tile_update_date\<close> runs.
\<close>

definition download_tile :: "ext \<Rightarrow> parser \<Rightarrow> files \<Rightarrow> int \<Rightarrow> (error + string option) \<times> files" where
  "download_tile E self fs id' =
     (case get_tile_zip E self id' of
        Inl err \<Rightarrow> (Inr None, fs)
      | Inr tile_zip \<Rightarrow>
          (case get_tile_code self id' of
             Inl err \<Rightarrow> (Inl err, fs)
           | Inr tile_code \<Rightarrow>
               (let tile_zip_fn = cache_dir self @ tile_code @ ''.zip'';
                    tile_laz_fn = cache_dir self @ tile_code @ ''.laz''
                in case tile_zip of
                     None \<Rightarrow> (Inl TypeError, fs)
                   | Some zip_url \<Rightarrow>
                       (case net_urlretrieve E zip_url of
                          RetrieveFailed err None \<Rightarrow> (Inl err, fs)
                        | RetrieveFailed err (Some part) \<Rightarrow> (Inl err, fs(tile_zip_fn \<mapsto> part))
                        | Retrieved bytes \<Rightarrow>
                            (let fs1 = fs(tile_zip_fn \<mapsto> bytes)
                             in case zip_members E bytes of
                                  None \<Rightarrow> (Inl BadZipFile, fs1)
                                | Some members \<Rightarrow>
                                    (let update_dates_path = cache_dir self @ ''update_dates.json'';
                                         fs2 = (if update_dates_path \<in> dom fs1 then fs1
                                                else fs1(update_dates_path \<mapsto> ''''));
                                         update_dict =
                                           (case json_load E (case fs2 update_dates_path of None \<Rightarrow> '''' | Some txt \<Rightarrow> txt) of
                                              None \<Rightarrow> []
                                            | Some d \<Rightarrow> d);
                                         fs3 = fs2(update_dates_path \<mapsto> '''')
                                     in case get_tile_update_date self id' of
                                          Inl err \<Rightarrow> (Inl err, fs3)
                                        | Inr update_date \<Rightarrow>
                                            (let update_dict = dict_set update_dict tile_code update_date;
                                                 fs4 = fs3(update_dates_path \<mapsto> json_dumps E update_dict)
                                             in case members of
                                                  [] \<Rightarrow> (Inl (IndexError OutOfRange), fs4)
                                                | m # ms \<Rightarrow>
                                                    (let file_name = fst m;
                                                         fs5 = fs4(cache_dir self @ file_name \<mapsto> snd m);
                                                         fs6 = (fs5(cache_dir self @ file_name := None))
                                                                 (tile_laz_fn \<mapsto> snd m)
                                                     in (Inr (Some tile_laz_fn), fs6)))))))))"

subsection \<open>The normalizer in float64 arithmetic\<close>

text \<open>
  numpy's remainder on floats: C's \<open>fmod\<close>, which is exact, then the divisor added when
  the signs differ, which is rounded. \<open>fl_snap\<close> is what lines 203-211 do to one
  coordinate, \<open>rnd\<close> applied to each result; \<open>fix_tile_coords_fl\<close> is \<open>fix_tile_coords\<close>
  with that arithmetic. With \<open>rnd\<close> the identity they are the exact functions above.
\<close>

definition fl_mod :: "(real \<Rightarrow> real) \<Rightarrow> real \<Rightarrow> real \<Rightarrow> real" where
  "fl_mod rnd x s =
     (let m = x - s * of_int (py_int (x / s))
      in if m \<noteq> 0 \<and> ((s < 0) \<noteq> (m < 0)) then rnd (m + s) else m)"

definition fl_snap :: "(real \<Rightarrow> real) \<Rightarrow> real \<Rightarrow> real \<Rightarrow> real" where
  "fl_snap rnd s c =
     (let r = fl_mod rnd c s in if r < s / 2 then rnd (c - r) else rnd (c + rnd (s - r)))"

definition fix_tile_coords_fl :: "(real \<Rightarrow> real) \<Rightarrow> polygon \<Rightarrow> error + polygon" where
  "fix_tile_coords_fl rnd tile =
     Polygon (map (\<lambda>v. (fl_snap rnd 2500 (fst v), fl_snap rnd 2000 (snd v))) tile)"

text \<open>A vertex on the 2500 by 2000 grid.\<close>

definition on_grid :: "point \<Rightarrow> bool" where
  "on_grid v = (pymod (fst v) 2500 = 0 \<and> pymod (snd v) 2000 = 0)"

subsection \<open>Notions of the specification\<close>

text \<open>
  A bounding box \<open>(left, bottom, right, top)\<close> of the index is in longitude and latitude;
  a vertex of a reported footprint is a pair (latitude, longitude).
\<close>

fun box_ordered :: "bbox \<Rightarrow> bool" where
  "box_ordered (left, bottom, right, top') = (left \<le> right \<and> bottom \<le> top')"

fun box_contains :: "bbox \<Rightarrow> point \<Rightarrow> bool" where
  "box_contains (left, bottom, right, top') (lat, lon) =
     (left \<le> lon \<and> lon \<le> right \<and> bottom \<le> lat \<and> lat \<le> top')"

text \<open>
  The normalizer as the specification words it: one coordinate, grid step \<open>s\<close>,
  \<open>r = coordinate mod s\<close>, snap down when \<open>r < s / 2\<close> and up otherwise.
\<close>

definition snap :: "real \<Rightarrow> real \<Rightarrow> real" where
  "snap s c = (let r = pymod c s in if r < s / 2 then c - r else c + (s - r))"

definition snap_vertex :: "point \<Rightarrow> point" where
  "snap_vertex v = (snap 2500 (fst v), snap 2000 (snd v))"

text \<open>What every \<open>exterior.coords\<close> of a shapely polygon is: empty, or a closed ring.\<close>

definition is_ring :: "polygon \<Rightarrow> bool" where
  "is_ring p = (p = [] \<or> (4 \<le> length p \<and> hd p = last p))"

text \<open>
  The normalized footprint of a tile, as the specification defines it: the reported
  footprint transformed to the planar system, closed to a ring, each vertex snapped to
  the grid. A footprint is polygonal when that ring has the four coordinates a polygon
  needs.
\<close>

definition close_ring :: "point list \<Rightarrow> polygon" where
  "close_ring cs = (if cs = [] \<or> hd cs = last cs then cs else cs @ [hd cs])"

definition planar_ring :: "ext \<Rightarrow> point list \<Rightarrow> polygon" where
  "planar_ring E tile = close_ring (map (\<lambda>v. wgs_to_sjtsk E (fst v) (snd v)) tile)"

definition polygonal :: "ext \<Rightarrow> point list \<Rightarrow> bool" where
  "polygonal E tile = (4 \<le> length (planar_ring E tile))"

definition normalized_footprint :: "ext \<Rightarrow> point list \<Rightarrow> polygon" where
  "normalized_footprint E tile = map snap_vertex (planar_ring E tile)"

text \<open>
  The circle-rectangle test in the words of the specification: no intersection when the
  centre is farther from the rectangle's centre than half the extent plus the radius on
  either axis; otherwise an intersection when it is within half the width or half the
  height, or when the squared distance to the corner is within the squared radius. The
  quantities are the float64 ones.
\<close>

definition circle_rect_test :: "circle \<Rightarrow> rectangle \<Rightarrow> bool" where
  "circle_rect_test c rect =
     (let dx = \<bar>round_f64 (circle_x c - rect_x rect)\<bar>;
          dy = \<bar>round_f64 (circle_y c - rect_y rect)\<bar>;
          half_w = round_f64 (rect_w rect / 2); half_h = round_f64 (rect_h rect / 2)
      in \<not> (dx > round_f64 (half_w + circle_r c) \<or> dy > round_f64 (half_h + circle_r c))
         \<and> (dx \<le> half_w \<or> dy \<le> half_h
              \<or> round_f64 (round_f64 ((round_f64 (dx - half_w))\<^sup>2)
                             + round_f64 ((round_f64 (dy - half_h))\<^sup>2))
                   \<le> round_f64 ((circle_r c)\<^sup>2)))"

text \<open>
  The same test over exact reals, for comparison.
\<close>

definition circle_rect_test_exact :: "circle \<Rightarrow> rectangle \<Rightarrow> bool" where
  "circle_rect_test_exact c rect =
     (let dx = \<bar>circle_x c - rect_x rect\<bar>; dy = \<bar>circle_y c - rect_y rect\<bar>
      in \<not> (dx > rect_w rect / 2 + circle_r c \<or> dy > rect_h rect / 2 + circle_r c)
         \<and> (dx \<le> rect_w rect / 2 \<or> dy \<le> rect_h rect / 2
              \<or> (dx - rect_w rect / 2)\<^sup>2 + (dy - rect_h rect / 2)\<^sup>2 \<le> (circle_r c)\<^sup>2))"

text \<open>
  Two rectangles of a ring, with centre and extent computed as \<open>Rectangle\<close> computes them:
  the one spanned by its first three vertices (from the x of vertices 0 and 1 and the y
  of vertices 0 and 2), and its axis-aligned bounding rectangle.
\<close>

definition rect_of_bounds :: "real \<Rightarrow> real \<Rightarrow> real \<Rightarrow> real \<Rightarrow> rectangle" where
  "rect_of_bounds x0 y0 x1 y1 =
     \<lparr>rect_x = round_f64 (round_f64 (x0 + x1) / 2), rect_y = round_f64 (round_f64 (y0 + y1) / 2),
      rect_w = round_f64 (x1 - x0), rect_h = round_f64 (y1 - y0)\<rparr>"

definition span_rectangle :: "polygon \<Rightarrow> rectangle" where
  "span_rectangle p = rect_of_bounds (fst (p ! 0)) (snd (p ! 0)) (fst (p ! 1)) (snd (p ! 2))"




subsection \<open>Example data\<close>

text \<open>A footprint in planar coordinates, as reported slightly off the grid.\<close>

definition ex_ring :: polygon where
  "ex_ring = [(-740001.2, -1040003.5), (-737499, -1040003.5), (-737499, -1038001),
              (-740001.2, -1038001), (-740001.2, -1040003.5)]"

text \<open>
  A catalogue of three tiles as the survey reports them: rectangles in latitude and
  longitude, listed south-west, south-east, north-east, north-west and closed, each a
  little larger than the tile. Tiles 0 and 1 are neighbours in a row, tile 2 lies north
  of tile 0.
\<close>

definition ex_entry_a :: entry where
  "ex_entry_a =
     \<lparr>georss_polygon = Some (map Some [49.9999, 14.3999, 49.9999, 14.4251, 50.0201, 14.4251,
                                        50.0201, 14.3999, 49.9999, 14.3999]),
      atom_id = Child (Some ''https://atom.cuzk.cz/DMR5G-SJTSK/datasetFeeds/CZ-00025712-CUZK_DMR5G-SJTSK_BENE01.xml''),
      atom_updated = Child (Some ''2023-05-01T00:00:00+02:00'')\<rparr>"

definition ex_entry_b :: entry where
  "ex_entry_b =
     \<lparr>georss_polygon = Some (map Some [49.9999, 14.4249, 49.9999, 14.4501, 50.0201, 14.4501,
                                        50.0201, 14.4249, 49.9999, 14.4249]),
      atom_id = Child (Some ''https://atom.cuzk.cz/DMR5G-SJTSK/datasetFeeds/CZ-00025712-CUZK_DMR5G-SJTSK_BENE02.xml''),
      atom_updated = Child (Some ''2023-06-01T00:00:00+02:00'')\<rparr>"

definition ex_entry_c :: entry where
  "ex_entry_c =
     \<lparr>georss_polygon = Some (map Some [50.0199, 14.3999, 50.0199, 14.4251, 50.0401, 14.4251,
                                        50.0401, 14.3999, 50.0199, 14.3999]),
      atom_id = Child (Some ''https://atom.cuzk.cz/DMR5G-SJTSK/datasetFeeds/CZ-00025712-CUZK_DMR5G-SJTSK_BENE11.xml''),
      atom_updated = Child (Some ''2023-07-01T00:00:00+02:00'')\<rparr>"

definition ex_doc :: xml_doc where
  "ex_doc = \<lparr>findall_entry = [ex_entry_a, ex_entry_b, ex_entry_c],
             iter_entry = [ex_entry_a, ex_entry_b, ex_entry_c]\<rparr>"

text \<open>
  A catalogue whose only footprint is not such a rectangle: its fourth vertex lies west
  of the first.
\<close>

definition ex_entry_skew :: entry where
  "ex_entry_skew =
     \<lparr>georss_polygon = Some (map Some [50.0, 14.40, 50.0, 14.425, 50.02, 14.425,
                                        50.02, 14.375, 50.0, 14.40]),
      atom_id = Child (Some ''https://atom.cuzk.cz/DMR5G-SJTSK/datasetFeeds/CZ-00025712-CUZK_DMR5G-SJTSK_SKEW00.xml''),
      atom_updated = Child (Some ''2023-05-01T00:00:00+02:00'')\<rparr>"

definition ex_doc_skew :: xml_doc where
  "ex_doc_skew = \<lparr>findall_entry = [ex_entry_skew], iter_entry = [ex_entry_skew]\<rparr>"

text \<open>The parser object built from the three-tile catalogue, and from the skewed one.\<close>

definition ex_parser :: parser where
  "ex_parser =
     \<lparr>cache_dir = ''cache/'', xml_root = ex_doc, n_entries = 3,
      tile_idx = [(0, (14.3999, 49.9999, 14.4251, 50.0201)),
                  (1, (14.4249, 49.9999, 14.4501, 50.0201)),
                  (2, (14.3999, 50.0199, 14.4251, 50.0401))],
      tile_polygons =
        [[(49.9999, 14.3999), (49.9999, 14.4251), (50.0201, 14.4251), (50.0201, 14.3999), (49.9999, 14.3999)],
         [(49.9999, 14.4249), (49.9999, 14.4501), (50.0201, 14.4501), (50.0201, 14.4249), (49.9999, 14.4249)],
         [(50.0199, 14.3999), (50.0199, 14.4251), (50.0401, 14.4251), (50.0401, 14.3999), (50.0199, 14.3999)]]\<rparr>"


text \<open>
  Stand-ins for the external capabilities, used where a statement is evaluated on the
  example catalogues. The planar system is a scaled copy of the geodetic one, in which
  the example tiles are 2500 by 2000 units; the index answers from its boxes in insertion
  order; the network is down.
\<close>

definition ex_ext :: ext where
  "ex_ext =
     \<lparr>wgs_to_sjtsk = (\<lambda>lat lon. (100000 * lon, 100000 * lat)),
      sjtsk_to_wgs = (\<lambda>x y. (y / 100000, x / 100000)),
      idx_intersection = (\<lambda>idx p. map fst (filter (\<lambda>e. box_contains (snd e) (snd p, fst p)) idx)),
      idx_nearest = (\<lambda>idx p k. take (nat k) (map fst idx)),
      shp_intersects = (\<lambda>a b. False),
      net_urlopen = (\<lambda>url. Inl URLError),
      tile_doc_zip_url = (\<lambda>data. Inl ParseError),
      net_urlretrieve = (\<lambda>url. RetrieveFailed URLError None),
      zip_members = (\<lambda>bytes. None),
      json_load = (\<lambda>txt. None),
      json_dumps = (\<lambda>d. '''')\<rparr>"

text \<open>The same with the tile descriptors reachable and the archive download failing.\<close>

definition ex_ext_no_archive :: ext where
  "ex_ext_no_archive =
     ex_ext\<lparr>net_urlopen := (\<lambda>url. Inr ''<feed><entry><id>tile.zip</id></entry></feed>''),
            tile_doc_zip_url := (\<lambda>data. Inr (Some ''https://openzu.cuzk.cz/opendata/DMR5G/epsg-5514/BENE01.zip''))\<rparr>"



text \<open>A cache directory that already holds a manifest and one extracted tile.\<close>

definition ex_files :: files where
  "ex_files = [''cache/update_dates.json'' \<mapsto> ''manifest listing BENE02'',
               ''cache/BENE02.laz'' \<mapsto> ''LASF'']"

text \<open>
  The float64 number next below 1, negated; the number \<open>1 / 2 ^ 53\<close>; a footprint with
  that x coordinate, what the normalizer makes of it, and what it makes of that; a
  footprint on the grid.
\<close>

definition ex_below_one :: real where
  "ex_below_one = - (1 - 1 / 2 ^ 53)"

definition ex_tiny :: real where
  "ex_tiny = 1 / 2 ^ 53"

definition ex_ring_near_zero :: polygon where
  "ex_ring_near_zero =
     [(ex_below_one, 0), (2500, 0), (2500, 2000), (ex_below_one, 2000), (ex_below_one, 0)]"

definition ex_ring_once :: polygon where
  "ex_ring_once =
     [(ex_tiny, 0), (2500, 0), (2500, 2000), (ex_tiny, 2000), (ex_tiny, 0)]"

definition ex_ring_twice :: polygon where
  "ex_ring_twice = [(0, 0), (2500, 0), (2500, 2000), (0, 2000), (0, 0)]"

definition ex_grid_ring :: polygon where
  "ex_grid_ring = [(-740000, -1040000), (-737500, -1040000), (-737500, -1038000),
                   (-740000, -1038000), (-740000, -1040000)]"

text \<open>
  A circle given by float64 numbers that, over the reals, just reaches over the upper
  right corner of the tile \<open>ex_grid_ring\<close>: centre \<open>(-737394.2388463953,
  -1037858.985128527)\<close> and radius \<open>176.2685893411981\<close>, written as the fractions these
  floats are.
\<close>

definition ex_circle_tangent :: circle where
  "ex_circle_tangent =
     Circle (- (6334168280208161 / 2 ^ 33), - (2228785199493387 / 2 ^ 31)) (1514135653065 / 2 ^ 33)"

section \<open>Properties\<close>

subsection \<open>The footprint normalizer\<close>

lemma mask_select_map: "map g (mask_select r ms) = mask_select (map g r) ms"
  by (induction r ms rule: mask_select.induct) auto

lemma mask_assign_map2:
  "length ms = length a \<Longrightarrow> length a = length b \<Longrightarrow>
   mask_assign a ms (map2 f (mask_select a ms) (mask_select b ms))
     = map (\<lambda>t. if fst t then f (fst (snd t)) (snd (snd t)) else fst (snd t)) (zip ms (zip a b))"
  by (induction ms a b rule: list_induct3) auto

text \<open>The two masked updates of one axis amount to one case distinction per entry.\<close>

lemma axis_snap:
  "mask_assign
     (mask_assign x (map (\<lambda>r. r < h) (np_mod x s))
        (map2 (\<lambda>a r. a - r) (mask_select x (map (\<lambda>r. r < h) (np_mod x s)))
                               (mask_select (np_mod x s) (map (\<lambda>r. r < h) (np_mod x s)))))
     (mask_not (map (\<lambda>r. r < h) (np_mod x s)))
     (map2 (\<lambda>a d. a + d)
        (mask_select
           (mask_assign x (map (\<lambda>r. r < h) (np_mod x s))
              (map2 (\<lambda>a r. a - r) (mask_select x (map (\<lambda>r. r < h) (np_mod x s)))
                                     (mask_select (np_mod x s) (map (\<lambda>r. r < h) (np_mod x s)))))
           (mask_not (map (\<lambda>r. r < h) (np_mod x s))))
        (map (\<lambda>r. s - r) (mask_select (np_mod x s) (mask_not (map (\<lambda>r. r < h) (np_mod x s))))))
   = map (\<lambda>c. if pymod c s < h then c - pymod c s else c + (s - pymod c s)) x"
  by (simp add: mask_select_map mask_assign_map2 np_mod_def mask_not_def list_eq_iff_nth_eq)

lemma fix_tile_coords_eq: "fix_tile_coords tile = Polygon (map snap_vertex tile)"
proof -
  have "zip (map (\<lambda>c. if pymod c 2500 < 1250 then c - pymod c 2500 else c + (2500 - pymod c 2500)) (map fst tile))
            (map (\<lambda>c. if pymod c 2000 < 1000 then c - pymod c 2000 else c + (2000 - pymod c 2000)) (map snd tile))
        = map snap_vertex tile"
    by (induction tile) (simp_all add: snap_vertex_def snap_def Let_def)
  then show ?thesis
    unfolding fix_tile_coords_def Let_def axis_snap by simp
qed

lemma Polygon_ring: "is_ring p \<Longrightarrow> Polygon p = Inr p"
  by (auto simp: is_ring_def Polygon_def Let_def)

lemma is_ring_map: "is_ring p \<Longrightarrow> is_ring (map f p)"
  by (auto simp: is_ring_def hd_map last_map)

lemma fix_tile_coords_ring: "is_ring tile \<Longrightarrow> fix_tile_coords tile = Inr (map snap_vertex tile)"
  by (simp add: fix_tile_coords_eq Polygon_ring is_ring_map)

text \<open>
  Claim C3. For every planar polygon (the closed ring of a shapely polygon),
  \<open>fix_tile_coords\<close> returns a polygon with the same number of vertices in the same
  order, and vertex \<open>i\<close> of the result is vertex \<open>i\<close> of the input with each coordinate
  snapped on its own: with \<open>r = x mod 2500\<close> the x coordinate becomes \<open>x - r\<close> when
  \<open>r < 2500 / 2\<close> and \<open>x + (2500 - r)\<close> otherwise, and likewise for y with step 2000.
\<close>

theorem fix_tile_coords_snaps_every_vertex:
  assumes "is_ring tile"
  shows "\<exists>fixed. fix_tile_coords tile = Inr fixed \<and> length fixed = length tile \<and>
     (\<forall>i<length tile. fixed ! i =
        (let x = fst (tile ! i); rx = pymod x 2500; y = snd (tile ! i); ry = pymod y 2000
         in (if rx < 2500 / 2 then x - rx else x + (2500 - rx),
             if ry < 2000 / 2 then y - ry else y + (2000 - ry))))"
proof -
  have "fix_tile_coords tile = Inr (map snap_vertex tile)"
    using assms by (rule fix_tile_coords_ring)
  then show ?thesis
    by (simp add: snap_vertex_def snap_def Let_def)
qed

theorem fix_tile_coords_snaps_every_vertex_witness:
  "is_ring ex_ring
   \<and> (\<exists>fixed. fix_tile_coords ex_ring = Inr fixed \<and> length fixed = 5
         \<and> fixed ! 0 = (-740000, -1040000) \<and> fixed ! 2 = (-737500, -1038000))"
proof -
  have r: "is_ring ex_ring"
    by (simp add: is_ring_def ex_ring_def)
  from fix_tile_coords_snaps_every_vertex[OF r]
  obtain fixed where f: "fix_tile_coords ex_ring = Inr fixed"
    and l: "length fixed = length ex_ring"
    and n: "\<forall>i<length ex_ring. fixed ! i =
        (let x = fst (ex_ring ! i); rx = pymod x 2500; y = snd (ex_ring ! i); ry = pymod y 2000
         in (if rx < 2500 / 2 then x - rx else x + (2500 - rx),
             if ry < 2000 / 2 then y - ry else y + (2000 - ry)))"
    by (elim exE conjE)
  have a: "fixed ! 0 = (-740000, -1040000)"
    using n[rule_format, of 0] by (simp add: pymod_def ex_ring_def)
  have b: "fixed ! 2 = (-737500, -1038000)"
    using n[rule_format, of 2] by (simp add: pymod_def ex_ring_def)
  show ?thesis using r f l a b by (simp add: ex_ring_def)
qed

subsection \<open>Building the index\<close>

lemma py_setitem_length: "py_setitem xs i v = Inr ys \<Longrightarrow> length ys = length xs"
  by (auto simp: py_setitem_def Let_def split: if_splits)

lemma py_setitem_nonneg:
  "0 \<le> i \<Longrightarrow> py_setitem xs i v = Inr ys \<Longrightarrow> nat i < length xs \<and> ys = xs[nat i := v]"
  by (auto simp: py_setitem_def Let_def split: if_splits)

lemma rtree_insert_Inr: "rtree_insert idx i box = Inr idx' \<Longrightarrow> idx' = idx @ [(i, box)]"
  by (cases box) (auto split: if_splits)

lemma rtree_insert_ordered: "rtree_insert idx i box = Inr idx' \<Longrightarrow> box_ordered box"
  by (cases box) (auto split: if_splits)

lemma get_tiles_loop_length:
  "get_tiles_loop es i idx polys = Inr (idx', polys') \<Longrightarrow> length polys' = length polys"
proof (induction es arbitrary: i idx polys)
  case Nil
  then show ?case by simp
next
  case (Cons e es)
  then show ?case
    by (auto split: option.splits sum.splits dest!: py_setitem_length)
qed

lemma get_tiles_loop_ids:
  "get_tiles_loop es i idx polys = Inr (idx', polys') \<Longrightarrow> 0 \<le> i \<Longrightarrow>
   map fst idx' = map fst idx @ map (\<lambda>j. i + int j) [0..<length es]
   \<and> (es \<noteq> [] \<longrightarrow> i + int (length es) \<le> int (length polys))"
proof (induction es arbitrary: i idx polys)
  case Nil
  then show ?case by simp
next
  case (Cons e es)
  from Cons.prems obtain tokens float_list pairs polys1 box idx1 where
    s: "py_setitem polys i pairs = Inr polys1"
    and ins: "rtree_insert idx i box = Inr idx1"
    and rest: "get_tiles_loop es (i + 1) idx1 polys1 = Inr (idx', polys')"
    by (auto split: option.splits sum.splits)
  from Cons.IH[OF rest] Cons.prems(2)
  have ih: "map fst idx' = map fst idx1 @ map (\<lambda>j. i + 1 + int j) [0..<length es]"
    and ih2: "es \<noteq> [] \<longrightarrow> i + 1 + int (length es) \<le> int (length polys1)"
    by auto
  have l1: "length polys1 = length polys" using s by (rule py_setitem_length)
  have i1: "nat i < length polys" using py_setitem_nonneg[OF Cons.prems(2) s] by simp
  have idx1: "idx1 = idx @ [(i, box)]" using ins by (rule rtree_insert_Inr)
  have "map (\<lambda>j. i + int j) [0..<length (e # es)] = i # map (\<lambda>j. i + 1 + int j) [0..<length es]"
    by (simp add: upt_rec[of 0] map_Suc_upt[symmetric] del: upt_Suc)
  then show ?case using ih ih2 l1 i1 idx1 Cons.prems(2) by auto
qed

lemma get_tiles_loop_keeps:
  "get_tiles_loop es i idx polys = Inr (idx', polys') \<Longrightarrow> 0 \<le> i \<Longrightarrow>
   (\<forall>k < nat i. polys' ! k = polys ! k) \<and> (\<exists>suffix. idx' = idx @ suffix \<and> length suffix = length es)"
proof (induction es arbitrary: i idx polys)
  case Nil
  then show ?case by simp
next
  case (Cons e es)
  from Cons.prems obtain tokens float_list pairs polys1 box idx1 where
    s: "py_setitem polys i pairs = Inr polys1"
    and ins: "rtree_insert idx i box = Inr idx1"
    and rest: "get_tiles_loop es (i + 1) idx1 polys1 = Inr (idx', polys')"
    by (auto split: option.splits sum.splits)
  from Cons.IH[OF rest] Cons.prems(2)
  have ih: "\<forall>k < nat (i + 1). polys' ! k = polys1 ! k"
    and ih2: "\<exists>suffix. idx' = idx1 @ suffix \<and> length suffix = length es"
    by auto
  have p1: "polys1 = polys[nat i := pairs]" using py_setitem_nonneg[OF Cons.prems(2) s] by simp
  have idx1: "idx1 = idx @ [(i, box)]" using ins by (rule rtree_insert_Inr)
  have "\<forall>k < nat i. polys' ! k = polys ! k"
    using ih p1 Cons.prems(2) by auto
  moreover have "\<exists>suffix. idx' = idx @ suffix \<and> length suffix = length (e # es)"
    using ih2 idx1 by auto
  ultimately show ?case by blast
qed

lemma get_tiles_loop_entries:
  "get_tiles_loop es i idx polys = Inr (idx', polys') \<Longrightarrow> 0 \<le> i \<Longrightarrow> j < length es \<Longrightarrow>
   \<exists>tokens float_list.
      georss_polygon (es ! j) = Some tokens \<and> floats_of tokens = Inr float_list
      \<and> make_pairs float_list = Inr (polys' ! (nat i + j))
      \<and> entry_box float_list = Inr (snd (idx' ! (length idx + j)))
      \<and> fst (idx' ! (length idx + j)) = i + int j
      \<and> box_ordered (snd (idx' ! (length idx + j)))"
proof (induction es arbitrary: i idx polys j)
  case Nil
  then show ?case by simp
next
  case (Cons e es)
  from Cons.prems(1) obtain tokens float_list pairs polys1 box idx1 where
    t: "georss_polygon e = Some tokens" and f: "floats_of tokens = Inr float_list"
    and m: "make_pairs float_list = Inr pairs"
    and s: "py_setitem polys i pairs = Inr polys1"
    and b: "entry_box float_list = Inr box"
    and ins: "rtree_insert idx i box = Inr idx1"
    and rest: "get_tiles_loop es (i + 1) idx1 polys1 = Inr (idx', polys')"
    by (auto split: option.splits sum.splits)
  have p1: "nat i < length polys" "polys1 = polys[nat i := pairs]"
    using py_setitem_nonneg[OF Cons.prems(2) s] by simp_all
  have idx1: "idx1 = idx @ [(i, box)]" using ins by (rule rtree_insert_Inr)
  have i1: "0 \<le> i + 1" using Cons.prems(2) by simp
  from get_tiles_loop_keeps[OF rest i1] obtain suffix where
    k: "\<forall>k < nat (i + 1). polys' ! k = polys1 ! k" and sf: "idx' = idx1 @ suffix"
    by blast
  show ?case
  proof (cases j)
    case 0
    have "polys' ! nat i = pairs" using k p1 Cons.prems(2) by simp
    moreover have "idx' ! length idx = (i, box)" using sf idx1 by (simp add: nth_append)
    ultimately show ?thesis using 0 t f m b rtree_insert_ordered[OF ins] by simp
  next
    case (Suc j')
    then have "j' < length es" using Cons.prems(3) by simp
    from Cons.IH[OF rest i1 this] obtain tokens' float_list' where
      "georss_polygon (es ! j') = Some tokens'" "floats_of tokens' = Inr float_list'"
      "make_pairs float_list' = Inr (polys' ! (nat (i + 1) + j'))"
      "entry_box float_list' = Inr (snd (idx' ! (length idx1 + j')))"
      "fst (idx' ! (length idx1 + j')) = i + 1 + int j'"
      "box_ordered (snd (idx' ! (length idx1 + j')))"
      by blast
    moreover have "nat (i + 1) + j' = nat i + j" using Suc Cons.prems(2) by simp
    moreover have "length idx1 + j' = length idx + j" using Suc idx1 by simp
    ultimately show ?thesis using Suc by simp
  qed
qed

lemma get_tiles_Inr:
  assumes "get_tiles doc n = Inr (idx, polys)"
  shows "length polys = n"
    and "map fst idx = map int [0..<length (iter_entry doc)]"
    and "iter_entry doc \<noteq> [] \<Longrightarrow> length (iter_entry doc) \<le> n"
    and "length idx = length (iter_entry doc)"
proof -
  from assms have loop:
    "get_tiles_loop (iter_entry doc) 0 [] (replicate n [(0, 0), (0, 0), (0, 0), (0, 0), (0, 0)]) = Inr (idx, polys)"
    by (simp add: get_tiles_def)
  show "length polys = n" using get_tiles_loop_length[OF loop] by simp
  show m: "map fst idx = map int [0..<length (iter_entry doc)]"
    using get_tiles_loop_ids[OF loop] by simp
  show "iter_entry doc \<noteq> [] \<Longrightarrow> length (iter_entry doc) \<le> n"
    using get_tiles_loop_ids[OF loop] by simp
  show "length idx = length (iter_entry doc)"
    using arg_cong[OF m, of length] by simp
qed

lemma floats_of_map_Some: "floats_of (map Some vs) = Inr vs"
  by (induction vs) auto

lemma entry_box_Inr:
  "entry_box float_list = Inr box \<Longrightarrow>
   5 \<le> length float_list
   \<and> box = (float_list ! 1, float_list ! 0, float_list ! 3, float_list ! 4)"
  by (auto simp: entry_box_def bindE_def py_index_def Let_def split: if_splits)

lemma get_tiles_entry_boxes:
  assumes "get_tiles doc n = Inr (idx, polys)" and "j < length (iter_entry doc)"
  shows "\<exists>tokens float_list.
           georss_polygon (iter_entry doc ! j) = Some tokens
           \<and> floats_of tokens = Inr float_list
           \<and> 5 \<le> length float_list
           \<and> idx ! j = (int j, (float_list ! 1, float_list ! 0, float_list ! 3, float_list ! 4))
           \<and> make_pairs float_list = Inr (polys ! j)"
proof -
  from assms(1) have loop:
    "get_tiles_loop (iter_entry doc) 0 [] (replicate n [(0, 0), (0, 0), (0, 0), (0, 0), (0, 0)]) = Inr (idx, polys)"
    by (simp add: get_tiles_def)
  from get_tiles_loop_entries[OF loop _ assms(2)] obtain tokens float_list where
    t: "georss_polygon (iter_entry doc ! j) = Some tokens"
    and f: "floats_of tokens = Inr float_list"
    and m: "make_pairs float_list = Inr (polys ! j)"
    and e: "entry_box float_list = Inr (snd (idx ! j))"
    and i: "fst (idx ! j) = int j"
    by auto
  from entry_box_Inr[OF e] have l: "5 \<le> length float_list"
    and bx: "snd (idx ! j) = (float_list ! 1, float_list ! 0, float_list ! 3, float_list ! 4)"
    by simp_all
  have "idx ! j = (int j, (float_list ! 1, float_list ! 0, float_list ! 3, float_list ! 4))"
    using i bx by (metis prod.collapse)
  then show ?thesis using t f l m by blast
qed

lemma get_tiles_rectangle_entries:
  assumes "get_tiles doc n = Inr (idx, polys)"
  shows "map fst idx = map int [0..<length (iter_entry doc)]
     \<and> (\<forall>j<length (iter_entry doc). \<forall>l b r t.
           georss_polygon (iter_entry doc ! j) = Some (map Some [b, l, b, r, t, r, t, l, b, l]) \<longrightarrow>
             idx ! j = (int j, (l, b, r, t))
             \<and> polys ! j = [(b, l), (b, r), (t, r), (t, l), (b, l)]
             \<and> list_all (box_contains (snd (idx ! j))) (polys ! j))"
proof (intro conjI allI impI)
  show "map fst idx = map int [0..<length (iter_entry doc)]"
    using get_tiles_Inr(2)[OF assms] .
next
  fix j l b r t
  assume j: "j < length (iter_entry doc)"
    and g: "georss_polygon (iter_entry doc ! j) = Some (map Some [b, l, b, r, t, r, t, l, b, l])"
  from assms have loop:
    "get_tiles_loop (iter_entry doc) 0 [] (replicate n [(0, 0), (0, 0), (0, 0), (0, 0), (0, 0)]) = Inr (idx, polys)"
    by (simp add: get_tiles_def)
  from get_tiles_loop_entries[OF loop _ j] g obtain float_list where
    f: "floats_of (map Some [b, l, b, r, t, r, t, l, b, l]) = Inr float_list"
    and m: "make_pairs float_list = Inr (polys ! j)"
    and e: "entry_box float_list = Inr (snd (idx ! j))"
    and i: "fst (idx ! j) = int j"
    and o: "box_ordered (snd (idx ! j))"
    by auto
  have fl: "float_list = [b, l, b, r, t, r, t, l, b, l]"
    using f unfolding floats_of_map_Some by simp
  have box: "snd (idx ! j) = (l, b, r, t)"
    using e unfolding fl by (simp add: entry_box_def bindE_def py_index_def)
  have mem: "(int j, (l, b, r, t)) \<in> set idx"
    using i box j get_tiles_Inr(4)[OF assms] by (metis nth_mem prod.collapse)
  show "idx ! j = (int j, (l, b, r, t))" using i box by (metis prod.collapse)
  show p: "polys ! j = [(b, l), (b, r), (t, r), (t, l), (b, l)]"
    using m unfolding fl by simp
  have "l \<le> r \<and> b \<le> t" using o unfolding box by simp
  then show "list_all (box_contains (snd (idx ! j))) (polys ! j)"
    unfolding p box by simp
qed

text \<open>
  Claim C7, as amended. Whenever \<open>get_tiles\<close> returns, the index holds exactly one entry
  per catalogue entry, with the entry's position as its id. With \<open>float_list\<close> the numbers
  of the entry's footprint text, the box stored for it is \<open>(float_list[1], float_list[0],
  float_list[3], float_list[4])\<close>, and the stored footprint is the list of pairs of
  \<open>float_list\<close>. So the box contains the whole reported footprint when that footprint is
  a rectangle in latitude and longitude listed south-west, south-east, north-east,
  north-west and closed, as the survey's catalogue lists them.
\<close>

theorem get_tiles_index_entries:
  assumes "get_tiles doc n = Inr (idx, polys)"
  shows "map fst idx = map int [0..<length (iter_entry doc)]
     \<and> (\<forall>j<length (iter_entry doc). \<exists>tokens float_list.
           georss_polygon (iter_entry doc ! j) = Some tokens
           \<and> floats_of tokens = Inr float_list
           \<and> 5 \<le> length float_list
           \<and> idx ! j = (int j, (float_list ! 1, float_list ! 0, float_list ! 3, float_list ! 4))
           \<and> make_pairs float_list = Inr (polys ! j))
     \<and> (\<forall>j<length (iter_entry doc). \<forall>l b r t.
           georss_polygon (iter_entry doc ! j) = Some (map Some [b, l, b, r, t, r, t, l, b, l]) \<longrightarrow>
             idx ! j = (int j, (l, b, r, t))
             \<and> polys ! j = [(b, l), (b, r), (t, r), (t, l), (b, l)]
             \<and> list_all (box_contains (snd (idx ! j))) (polys ! j))"
  using get_tiles_rectangle_entries[OF assms] get_tiles_entry_boxes[OF assms] by blast

lemma get_tiles_ex_doc:
  "get_tiles ex_doc 3 = Inr (tile_idx ex_parser, tile_polygons ex_parser)"
  by (simp add: get_tiles_def ex_doc_def ex_entry_a_def ex_entry_b_def ex_entry_c_def ex_parser_def
      py_setitem_def entry_box_def bindE_def py_index_def Let_def eval_nat_numeral)

theorem get_tiles_index_entries_witness:
  "get_tiles ex_doc 3 = Inr (tile_idx ex_parser, tile_polygons ex_parser)
   \<and> tile_idx ex_parser ! 1 = (1, (14.4249, 49.9999, 14.4501, 50.0201))
   \<and> list_all (box_contains (14.4249, 49.9999, 14.4501, 50.0201))
        [(49.9999, 14.4249), (49.9999, 14.4501), (50.0201, 14.4501), (50.0201, 14.4249), (49.9999, 14.4249)]"
proof -
  have j: "1 < length (iter_entry ex_doc)" by (simp add: ex_doc_def)
  have e: "georss_polygon (iter_entry ex_doc ! 1) =
      Some (map Some [49.9999, 14.4249, 49.9999, 14.4501, 50.0201, 14.4501, 50.0201, 14.4249, 49.9999, 14.4249])"
    by (simp add: ex_doc_def ex_entry_b_def)
  from get_tiles_index_entries[OF get_tiles_ex_doc] j e
  have "tile_idx ex_parser ! 1 = (int 1, (14.4249, 49.9999, 14.4501, 50.0201))
        \<and> tile_polygons ex_parser ! 1 =
            [(49.9999, 14.4249), (49.9999, 14.4501), (50.0201, 14.4501), (50.0201, 14.4249), (49.9999, 14.4249)]
        \<and> list_all (box_contains (snd (tile_idx ex_parser ! 1))) (tile_polygons ex_parser ! 1)"
    by blast
  then show ?thesis using get_tiles_ex_doc by simp
qed

text \<open>
  For a footprint of another shape the stored box can miss a vertex: here the fourth
  vertex lies west of the box.
\<close>

theorem get_tiles_box_misses_vertex:
  "get_tiles ex_doc_skew 1 =
     Inr ([(0, (14.40, 50.0, 14.425, 50.02))],
          [[(50.0, 14.40), (50.0, 14.425), (50.02, 14.425), (50.02, 14.375), (50.0, 14.40)]])
   \<and> \<not> list_all (box_contains (14.40, 50.0, 14.425, 50.02))
          [(50.0, 14.40), (50.0, 14.425), (50.02, 14.425), (50.02, 14.375), (50.0, 14.40)]"
  by (simp add: get_tiles_def ex_doc_skew_def ex_entry_skew_def
      py_setitem_def entry_box_def bindE_def py_index_def Let_def)

subsection \<open>Footprint lookup by ordinal\<close>

lemma ex_parser_built: "Dmr5gParser ''cache/'' ex_doc = Inr ex_parser"
proof -
  have "length (findall_entry ex_doc) = 3" by (simp add: ex_doc_def)
  then show ?thesis
    using get_tiles_ex_doc
    by (simp add: Dmr5gParser_def bindE_def ex_parser_def Let_def)
qed

lemma Dmr5gParser_Inr:
  assumes "Dmr5gParser dir doc = Inr self"
  shows "get_tiles doc (n_entries self) = Inr (tile_idx self, tile_polygons self)"
    and "xml_root self = doc" and "cache_dir self = dir"
  using assms by (auto simp: Dmr5gParser_def bindE_def Let_def split: sum.splits)

text \<open>
  A negative index passes the check of \<open>get_tile\<close> and is indexed as Python indexes a
  list: footprint \<open>n + i\<close> for \<open>- n \<le> i\<close>, and the list's own \<open>IndexError\<close> below that.
\<close>

lemma get_tile_negative_index:
  assumes "Dmr5gParser dir doc = Inr self"
  shows "(- int (n_entries self) \<le> i \<and> i < 0 \<longrightarrow>
           get_tile self i = Inr (tile_polygons self ! nat (i + int (n_entries self))))
     \<and> (i < - int (n_entries self) \<longrightarrow> get_tile self i = Inl (IndexError OutOfRange))"
proof -
  note g = Dmr5gParser_Inr(1)[OF assms]
  have len: "length (tile_polygons self) = n_entries self"
    using get_tiles_Inr(1)[OF g] .
  show ?thesis by (auto simp: get_tile_def py_index_def Let_def len)
qed

text \<open>
  Claim C9. For a constructed parser with \<open>n\<close> entries: for every integer \<open>i\<close>,
  \<open>get_tile\<close> raises its out-of-bounds \<open>IndexError\<close> exactly when \<open>i \<ge> n\<close>; for every ordinal
  \<open>i \<ge> 0\<close> it raises at all exactly when \<open>i \<ge> n\<close>; for \<open>0 \<le> i < n\<close> it returns the stored
  footprint \<open>i\<close>, which for a catalogue entry is the list of pairs parsed from that entry's
  polygon text, unchanged.
\<close>

theorem get_tile_by_ordinal:
  assumes "Dmr5gParser dir doc = Inr self"
  shows "(get_tile self i = Inl (IndexError (IdOutOfBounds i (n_entries self)))
            \<longleftrightarrow> int (n_entries self) \<le> i)
     \<and> (0 \<le> i \<longrightarrow> ((\<exists>e. get_tile self i = Inl e) \<longleftrightarrow> int (n_entries self) \<le> i))
     \<and> (0 \<le> i \<and> i < int (n_entries self) \<longrightarrow> get_tile self i = Inr (tile_polygons self ! nat i))
     \<and> (0 \<le> i \<and> i < int (length (iter_entry doc)) \<longrightarrow>
           (\<exists>tokens float_list. georss_polygon (iter_entry doc ! nat i) = Some tokens
              \<and> floats_of tokens = Inr float_list
              \<and> make_pairs float_list = get_tile self i))"
proof -
  note g = Dmr5gParser_Inr(1)[OF assms]
  have len: "length (tile_polygons self) = n_entries self"
    using get_tiles_Inr(1)[OF g] .
  have a: "(get_tile self i = Inl (IndexError (IdOutOfBounds i (n_entries self)))) = (int (n_entries self) \<le> i)"
    by (auto simp: get_tile_def py_index_def Let_def)
  have b: "0 \<le> i \<and> i < int (n_entries self) \<longrightarrow> get_tile self i = Inr (tile_polygons self ! nat i)"
    by (auto simp: get_tile_def py_index_def Let_def len)
  have r: "0 \<le> i \<longrightarrow> ((\<exists>e. get_tile self i = Inl e) \<longleftrightarrow> int (n_entries self) \<le> i)"
  proof (intro impI iffI)
    assume "0 \<le> i" and "\<exists>e. get_tile self i = Inl e"
    then show "int (n_entries self) \<le> i" using b by (cases "i < int (n_entries self)") auto
  next
    assume "int (n_entries self) \<le> i"
    then show "\<exists>e. get_tile self i = Inl e" using a by blast
  qed
  have c: "0 \<le> i \<and> i < int (length (iter_entry doc)) \<longrightarrow>
           (\<exists>tokens float_list. georss_polygon (iter_entry doc ! nat i) = Some tokens
              \<and> floats_of tokens = Inr float_list
              \<and> make_pairs float_list = get_tile self i)"
  proof
    assume h: "0 \<le> i \<and> i < int (length (iter_entry doc))"
    then have j: "nat i < length (iter_entry doc)" by linarith
    then have ne: "iter_entry doc \<noteq> []" by auto
    have "i < int (n_entries self)" using get_tiles_Inr(3)[OF g ne] h by simp
    then have gt: "get_tile self i = Inr (tile_polygons self ! nat i)" using b h by simp
    from g have loop:
      "get_tiles_loop (iter_entry doc) 0 [] (replicate (n_entries self) [(0, 0), (0, 0), (0, 0), (0, 0), (0, 0)])
         = Inr (tile_idx self, tile_polygons self)"
      by (simp add: get_tiles_def)
    from get_tiles_loop_entries[OF loop _ j] show
      "\<exists>tokens float_list. georss_polygon (iter_entry doc ! nat i) = Some tokens
              \<and> floats_of tokens = Inr float_list
              \<and> make_pairs float_list = get_tile self i"
      unfolding gt by auto
  qed
  show ?thesis using a r b c by blast
qed

theorem get_tile_by_ordinal_witness:
  "Dmr5gParser ''cache/'' ex_doc = Inr ex_parser
   \<and> get_tile ex_parser 3 = Inl (IndexError (IdOutOfBounds 3 3))
   \<and> get_tile ex_parser 1 =
       Inr [(49.9999, 14.4249), (49.9999, 14.4501), (50.0201, 14.4501), (50.0201, 14.4249), (49.9999, 14.4249)]
   \<and> (\<nexists>e. get_tile ex_parser 2 = Inl e)"
proof -
  have n: "n_entries ex_parser = 3" by (simp add: ex_parser_def)
  have p: "tile_polygons ex_parser ! Suc 0 =
      [(49.9999, 14.4249), (49.9999, 14.4501), (50.0201, 14.4501), (50.0201, 14.4249), (49.9999, 14.4249)]"
    by (simp add: ex_parser_def)
  show ?thesis
    using ex_parser_built
      get_tile_by_ordinal[OF ex_parser_built, of 3]
      get_tile_by_ordinal[OF ex_parser_built, of 1]
      get_tile_by_ordinal[OF ex_parser_built, of 2]
    by (simp add: n p)
qed

subsection \<open>Catalogue lookups\<close>

lemma get_tile_xml_loop_miss:
  "id' < i \<or> i + int (length es) \<le> id' \<Longrightarrow> get_tile_xml_loop es i id' = Inr None"
  by (induction es arbitrary: i) auto

lemma get_tile_update_date_loop_miss:
  "id' < i \<or> i + int (length es) \<le> id' \<Longrightarrow> get_tile_update_date_loop es i id' = Inr None"
  by (induction es arbitrary: i) auto

text \<open>
  Claim C10. For every ordinal at or beyond the number of catalogue entries,
  \<open>get_tile_xml\<close> and \<open>get_tile_update_date\<close> return \<open>None\<close>: their loops end without
  a match and nothing raises an out-of-range error. The callers get that \<open>None\<close>:
  \<open>get_tile_code\<close> fails on it with \<open>AttributeError\<close>, \<open>get_tile_zip\<close> likewise, and
  \<open>download_tile\<close> returns \<open>None\<close> with the cache untouched.
\<close>

theorem lookups_beyond_catalogue_return_None:
  assumes "int (length (iter_entry (xml_root self))) \<le> i"
  shows "get_tile_xml self i = Inr None
     \<and> get_tile_update_date self i = Inr None
     \<and> get_tile_code self i = Inl AttributeError
     \<and> get_tile_zip E self i = Inl AttributeError
     \<and> download_tile E self fs i = (Inr None, fs)"
proof -
  have x: "get_tile_xml self i = Inr None"
    using assms by (simp add: get_tile_xml_def get_tile_xml_loop_miss)
  have u: "get_tile_update_date self i = Inr None"
    using assms by (simp add: get_tile_update_date_def get_tile_update_date_loop_miss)
  have c: "get_tile_code self i = Inl AttributeError"
    by (simp add: get_tile_code_def x bindE_def)
  have z: "get_tile_zip E self i = Inl AttributeError"
    by (simp add: get_tile_zip_def x bindE_def open_url_def)
  have d: "download_tile E self fs i = (Inr None, fs)"
    by (simp add: download_tile_def z)
  show ?thesis using x u c z d by simp
qed

theorem lookups_beyond_catalogue_return_None_witness:
  "int (length (iter_entry (xml_root ex_parser))) \<le> 3
   \<and> get_tile_xml ex_parser 3 = Inr None
   \<and> get_tile_update_date ex_parser 3 = Inr None
   \<and> get_tile_code ex_parser 3 = Inl AttributeError
   \<and> download_tile ex_ext ex_parser Map.empty 3 = (Inr None, Map.empty)"
proof -
  have h: "int (length (iter_entry (xml_root ex_parser))) \<le> 3"
    by (simp add: ex_parser_def ex_doc_def)
  show ?thesis
    using h lookups_beyond_catalogue_return_None[OF h, of ex_ext Map.empty] by simp
qed

subsection \<open>The number of candidates\<close>

lemma floor_half_shift: "\<lfloor>(1.1 + real_of_int k) / 2\<rfloor> = (k + 1) div 2"
proof (rule floor_unique)
  have "\<exists>m. k = 2 * m \<or> k = 2 * m + 1" by presburger
  then obtain m where "k = 2 * m \<or> k = 2 * m + 1" by blast
  then show "of_int ((k + 1) div 2) \<le> (1.1 + real_of_int k) / 2"
    by (elim disjE) simp_all
  from \<open>k = 2 * m \<or> k = 2 * m + 1\<close>
  show "(1.1 + real_of_int k) / 2 < of_int ((k + 1) div 2) + 1"
    by (elim disjE) simp_all
qed

lemma py_int_of_int: "py_int (real_of_int z) = z"
  by (simp add: py_int_def)

lemma necessary_num_closed: "necessary_num_near_tiles r = (2 + 2 * ((\<lfloor>r / 1000\<rfloor> + 1) div 2))\<^sup>2"
proof -
  have "(2 + 2 * real_of_int ((\<lfloor>r / 1000\<rfloor> + 1) div 2))\<^sup>2
      = real_of_int ((2 + 2 * ((\<lfloor>r / 1000\<rfloor> + 1) div 2))\<^sup>2)"
    by simp
  then show ?thesis
    unfolding necessary_num_near_tiles_def floor_half_shift by (simp only: py_int_of_int)
qed

lemma necessary_num_mono:
  assumes "0 \<le> r" "r \<le> r'"
  shows "necessary_num_near_tiles r \<le> necessary_num_near_tiles r'"
proof -
  have k0: "0 \<le> \<lfloor>r / 1000\<rfloor>" using assms(1) by simp
  have kk: "\<lfloor>r / 1000\<rfloor> \<le> \<lfloor>r' / 1000\<rfloor>"
    using assms(2) by (intro floor_mono) (simp add: divide_right_mono)
  have a: "0 \<le> 2 + 2 * ((\<lfloor>r / 1000\<rfloor> + 1) div 2)" using k0 by simp
  have b: "2 + 2 * ((\<lfloor>r / 1000\<rfloor> + 1) div 2) \<le> 2 + 2 * ((\<lfloor>r' / 1000\<rfloor> + 1) div 2)"
    using kk by (simp add: zdiv_mono1)
  show ?thesis unfolding necessary_num_closed using b a by (rule power_mono)
qed

text \<open>
  Claim C6. For every radius \<open>r\<close> (negative ones included) the number of candidates
  asked of the index is \<open>(2 + 2 * floor ((1.1 + floor (r / 1000)) / 2))\<^sup>2\<close>, which is
  \<open>(2 + 2 * ((floor (r / 1000) + 1) div 2))\<^sup>2\<close>: 4 for \<open>r = 0\<close>, for \<open>r = 999\<close> and on all of
  \<open>0 \<le> r < 1000\<close>, 16 at \<open>r = 1000\<close>; it depends on the whole kilometres of \<open>r\<close> only and
  does not decrease as \<open>r \<ge> 0\<close> grows. \<open>get_tile_ids\<close> passes this number to \<open>nearest\<close>
  for its radius, \<open>get_tile_ids_rect\<close> for half the diagonal of its rectangle.
\<close>

theorem candidate_count_formula:
  "necessary_num_near_tiles r = (2 + 2 * \<lfloor>(1.1 + real_of_int \<lfloor>r / 1000\<rfloor>) / 2\<rfloor>)\<^sup>2
   \<and> necessary_num_near_tiles r = (2 + 2 * ((\<lfloor>r / 1000\<rfloor> + 1) div 2))\<^sup>2
   \<and> necessary_num_near_tiles 0 = 4
   \<and> necessary_num_near_tiles 999 = 4
   \<and> necessary_num_near_tiles 1000 = 16
   \<and> (0 \<le> r \<and> r < 1000 \<longrightarrow> necessary_num_near_tiles r = 4)
   \<and> (\<lfloor>r / 1000\<rfloor> = \<lfloor>r' / 1000\<rfloor> \<longrightarrow> necessary_num_near_tiles r = necessary_num_near_tiles r')
   \<and> (0 \<le> r \<and> r \<le> r' \<longrightarrow> necessary_num_near_tiles r \<le> necessary_num_near_tiles r')
   \<and> get_tile_ids E self p r =
         get_tile_ids_loop E self p r
           (idx_nearest E (tile_idx self)
              (snd (sjtsk_to_wgs E (fst p) (snd p)), fst (sjtsk_to_wgs E (fst p) (snd p)))
              ((2 + 2 * \<lfloor>(1.1 + real_of_int \<lfloor>r / 1000\<rfloor>) / 2\<rfloor>)\<^sup>2)) []
   \<and> (\<exists>poly2check centre.
         get_tile_ids_rect E self tl_sjtsk tr_sjtsk bl_sjtsk br_sjtsk =
           get_tile_ids_rect_loop E self poly2check
             (idx_nearest E (tile_idx self) centre
                ((2 + 2 * \<lfloor>(1.1 + real_of_int \<lfloor>(sqrt ((fst tr_sjtsk - fst bl_sjtsk)\<^sup>2 + (snd tr_sjtsk - snd bl_sjtsk)\<^sup>2) / 2) / 1000\<rfloor>) / 2\<rfloor>)\<^sup>2)) [])"
proof -
  have f: "\<And>q. necessary_num_near_tiles q = (2 + 2 * \<lfloor>(1.1 + real_of_int \<lfloor>q / 1000\<rfloor>) / 2\<rfloor>)\<^sup>2"
    unfolding necessary_num_closed floor_half_shift by simp
  have v0: "necessary_num_near_tiles 0 = 4" by (simp add: necessary_num_closed)
  have v999: "necessary_num_near_tiles 999 = 4" by (simp add: necessary_num_closed)
  have v1000: "necessary_num_near_tiles 1000 = 16" by (simp add: necessary_num_closed)
  have low: "0 \<le> r \<and> r < 1000 \<longrightarrow> necessary_num_near_tiles r = 4"
  proof
    assume "0 \<le> r \<and> r < 1000"
    then have "\<lfloor>r / 1000\<rfloor> = 0" by (simp add: floor_eq_iff)
    then show "necessary_num_near_tiles r = 4" by (simp add: necessary_num_closed)
  qed
  have same: "\<lfloor>r / 1000\<rfloor> = \<lfloor>r' / 1000\<rfloor> \<longrightarrow> necessary_num_near_tiles r = necessary_num_near_tiles r'"
    by (simp add: necessary_num_closed)
  have mono: "0 \<le> r \<and> r \<le> r' \<longrightarrow> necessary_num_near_tiles r \<le> necessary_num_near_tiles r'"
    using necessary_num_mono by blast
  have c: "get_tile_ids E self p r =
         get_tile_ids_loop E self p r
           (idx_nearest E (tile_idx self)
              (snd (sjtsk_to_wgs E (fst p) (snd p)), fst (sjtsk_to_wgs E (fst p) (snd p)))
              ((2 + 2 * \<lfloor>(1.1 + real_of_int \<lfloor>r / 1000\<rfloor>) / 2\<rfloor>)\<^sup>2)) []"
    by (simp only: get_tile_ids_def Let_def f)
  have pc: "Polygon [tl_sjtsk, bl_sjtsk, br_sjtsk, tr_sjtsk] = Inr (if tl_sjtsk = tr_sjtsk then [tl_sjtsk, bl_sjtsk, br_sjtsk, tr_sjtsk] else [tl_sjtsk, bl_sjtsk, br_sjtsk, tr_sjtsk, tl_sjtsk])"
    by (simp add: Polygon_def Let_def)
  have d: "\<exists>poly2check centre.
         get_tile_ids_rect E self tl_sjtsk tr_sjtsk bl_sjtsk br_sjtsk =
           get_tile_ids_rect_loop E self poly2check
             (idx_nearest E (tile_idx self) centre
                ((2 + 2 * \<lfloor>(1.1 + real_of_int \<lfloor>(sqrt ((fst tr_sjtsk - fst bl_sjtsk)\<^sup>2 + (snd tr_sjtsk - snd bl_sjtsk)\<^sup>2) / 2) / 1000\<rfloor>) / 2\<rfloor>)\<^sup>2)) []"
    unfolding get_tile_ids_rect_def pc bindE_def Let_def f by auto
  show ?thesis using f[of r] necessary_num_closed[of r] v0 v999 v1000 low same mono c d by blast
qed

theorem candidate_count_formula_witness:
  "necessary_num_near_tiles 2999 = 16 \<and> necessary_num_near_tiles 3000 = 36
   \<and> necessary_num_near_tiles 500 = 4
   \<and> necessary_num_near_tiles 1200 \<le> necessary_num_near_tiles 3100"
proof -
  have a: "necessary_num_near_tiles 2999 = 16"
    using candidate_count_formula[of 2999] by simp
  have b: "necessary_num_near_tiles 3000 = 36"
    using candidate_count_formula[of 3000] by simp
  have c: "necessary_num_near_tiles 500 = 4"
    using candidate_count_formula[of 500] by simp
  have "(0::real) \<le> 1200 \<and> (1200::real) \<le> 3100
          \<longrightarrow> necessary_num_near_tiles 1200 \<le> necessary_num_near_tiles 3100"
    using candidate_count_formula[of 1200 3100] by blast
  then have d: "necessary_num_near_tiles 1200 \<le> necessary_num_near_tiles 3100"
    by simp
  show ?thesis using a b c d by simp
qed

subsection \<open>Point resolution\<close>

lemma to_sjtsk_polygon_polygonal:
  "polygonal E tile \<Longrightarrow> to_sjtsk_polygon E tile = Inr (planar_ring E tile)"
  by (auto simp: polygonal_def planar_ring_def close_ring_def to_sjtsk_polygon_def Polygon_def Let_def
      split: if_splits)

lemma planar_ring_is_ring: "polygonal E tile \<Longrightarrow> is_ring (planar_ring E tile)"
  by (auto simp: polygonal_def planar_ring_def close_ring_def is_ring_def split: if_splits)

lemma tile_sjtsk_fixed_polygonal:
  assumes "get_tile self i = Inr tile" "polygonal E tile"
  shows "tile_sjtsk_fixed E self i = Inr (normalized_footprint E tile)"
  using assms
  by (simp add: tile_sjtsk_fixed_def bindE_def to_sjtsk_polygon_polygonal
      fix_tile_coords_ring planar_ring_is_ring normalized_footprint_def)

lemma stored_id_in_range:
  assumes "Dmr5gParser dir doc = Inr self" "i \<in> fst ` set (tile_idx self)"
  shows "0 \<le> i \<and> i < int (n_entries self)"
proof -
  note g = Dmr5gParser_Inr(1)[OF assms(1)]
  have "i \<in> set (map fst (tile_idx self))" using assms(2) by simp
  then have m: "i \<in> set (map int [0..<length (iter_entry doc)])"
    using get_tiles_Inr(2)[OF g] by simp
  then have ne: "iter_entry doc \<noteq> []" by auto
  from m get_tiles_Inr(3)[OF g ne] show ?thesis by auto
qed

lemma get_tile_stored:
  assumes "Dmr5gParser dir doc = Inr self" "i \<in> fst ` set (tile_idx self)"
  shows "get_tile self i = Inr (tile_polygons self ! nat i)"
proof -
  have "length (tile_polygons self) = n_entries self"
    using get_tiles_Inr(1)[OF Dmr5gParser_Inr(1)[OF assms(1)]] .
  then show ?thesis
    using stored_id_in_range[OF assms] by (auto simp: get_tile_def py_index_def Let_def)
qed

lemma normalized_stored:
  assumes "Dmr5gParser dir doc = Inr self" "i \<in> fst ` set (tile_idx self)"
    and "polygonal E (tile_polygons self ! nat i)"
  shows "tile_sjtsk_fixed E self i = Inr (normalized_footprint E (tile_polygons self ! nat i))"
  using tile_sjtsk_fixed_polygonal[OF get_tile_stored[OF assms(1,2)] assms(3)] .

lemma get_tile_id_loop_find:
  assumes "\<forall>i \<in> set ids. tile_sjtsk_fixed E self i = Inr (N i)"
  shows "get_tile_id_loop E self point pt ids =
     (case find (\<lambda>k. polygon_contains (N k) pt) ids of
        Some k \<Rightarrow> Inr k
      | None \<Rightarrow> Inl (PointOutOfTileError NoneOfSelected point))"
  using assms by (induction ids) auto

lemma get_tile_id_cases:
  assumes "Dmr5gParser dir doc = Inr self"
    and "set (get_intersection_tile_ids E self point) \<subseteq> fst ` set (tile_idx self)"
    and "\<forall>i \<in> set (get_intersection_tile_ids E self point). polygonal E (tile_polygons self ! nat i)"
  shows "get_tile_id E self point =
     (case get_intersection_tile_ids E self point of
        [] \<Rightarrow> Inl (PointOutOfTileError NoTileFound point)
      | [i] \<Rightarrow>
          if polygon_contains (normalized_footprint E (tile_polygons self ! nat i))
               (wgs_to_sjtsk E (snd point) (fst point))
          then Inr i else Inl (PointOutOfTileError OnlyOneSelected point)
      | i # j # rest \<Rightarrow>
          (case find (\<lambda>k. polygon_contains (normalized_footprint E (tile_polygons self ! nat k))
                              (wgs_to_sjtsk E (snd point) (fst point))) (i # j # rest) of
             Some k \<Rightarrow> Inr k
           | None \<Rightarrow> Inl (PointOutOfTileError NoneOfSelected point)))"
proof -
  let ?ids = "get_intersection_tile_ids E self point"
  let ?N = "\<lambda>k. normalized_footprint E (tile_polygons self ! nat k)"
  have n: "\<forall>i \<in> set ?ids. tile_sjtsk_fixed E self i = Inr (?N i)"
    using normalized_stored[OF assms(1)] assms(2,3) by blast
  show ?thesis
  proof (cases ?ids)
    case Nil
    then show ?thesis by (simp add: get_tile_id_def)
  next
    case (Cons i rest)
    note c1 = Cons
    show ?thesis
    proof (cases rest)
      case Nil
      have "tile_sjtsk_fixed E self i = Inr (?N i)" using n c1 by simp
      then show ?thesis using c1 Nil by (simp add: get_tile_id_def bindE_def Let_def)
    next
      case (Cons j rest')
      have "get_tile_id E self point =
          get_tile_id_loop E self point (wgs_to_sjtsk E (snd point) (fst point)) ?ids"
        using c1 Cons by (simp add: get_tile_id_def Let_def)
      then show ?thesis
        unfolding get_tile_id_loop_find[OF n] using c1 Cons by simp
    qed
  qed
qed



text \<open>
  Claim C1. For a constructed parser and every query point, when the index answers with
  ids it holds and the candidates' footprints are polygonal: with no candidate
  \<open>get_tile_id\<close> fails with \<open>PointOutOfTileError\<close> "no tile found"; with one candidate it
  returns that id if the candidate's normalized footprint contains the transformed point
  and fails with "only one tile selected and it is not containing" otherwise; with
  several candidates it returns the first id, in the order the index gave them, whose
  normalized footprint contains the point, and fails with "none of selected tiles
  contains" when there is none.
\<close>

theorem get_tile_id_resolution:
  assumes "Dmr5gParser dir doc = Inr self"
    and "set (get_intersection_tile_ids E self point) \<subseteq> fst ` set (tile_idx self)"
    and "\<forall>i \<in> set (get_intersection_tile_ids E self point). polygonal E (tile_polygons self ! nat i)"
  shows "get_tile_id E self point =
     (case get_intersection_tile_ids E self point of
        [] \<Rightarrow> Inl (PointOutOfTileError NoTileFound point)
      | [i] \<Rightarrow>
          if polygon_contains (normalized_footprint E (tile_polygons self ! nat i))
               (wgs_to_sjtsk E (snd point) (fst point))
          then Inr i else Inl (PointOutOfTileError OnlyOneSelected point)
      | i # j # rest \<Rightarrow>
          (case find (\<lambda>k. polygon_contains (normalized_footprint E (tile_polygons self ! nat k))
                              (wgs_to_sjtsk E (snd point) (fst point))) (i # j # rest) of
             Some k \<Rightarrow> Inr k
           | None \<Rightarrow> Inl (PointOutOfTileError NoneOfSelected point)))"
  using assms by (rule get_tile_id_cases)

lemma ex_footprint_0:
  "normalized_footprint ex_ext (tile_polygons ex_parser ! 0) =
     [(1440000, 5000000), (1442500, 5000000), (1442500, 5002000), (1440000, 5002000), (1440000, 5000000)]"
  by (simp add: normalized_footprint_def planar_ring_def close_ring_def ex_ext_def ex_parser_def
      snap_vertex_def snap_def pymod_def Let_def)

lemma ex_footprint_1:
  "normalized_footprint ex_ext (tile_polygons ex_parser ! 1) =
     [(1442500, 5000000), (1445000, 5000000), (1445000, 5002000), (1442500, 5002000), (1442500, 5000000)]"
  by (simp add: normalized_footprint_def planar_ring_def close_ring_def ex_ext_def ex_parser_def
      snap_vertex_def snap_def pymod_def Let_def)

lemma ex_polygonal: "i < 3 \<Longrightarrow> polygonal ex_ext (tile_polygons ex_parser ! i)"
proof -
  assume "i < 3"
  then have "i = 0 \<or> i = 1 \<or> i = 2" by auto
  then show ?thesis
    by (auto simp: polygonal_def planar_ring_def close_ring_def ex_ext_def ex_parser_def)
qed

lemma ex_candidates_overlap:
  "get_intersection_tile_ids ex_ext ex_parser (14.42505, 50.01) = [0, 1]"
  by (simp add: get_intersection_tile_ids_def ex_ext_def ex_parser_def)

theorem get_tile_id_resolution_witness:
  "Dmr5gParser ''cache/'' ex_doc = Inr ex_parser
   \<and> get_intersection_tile_ids ex_ext ex_parser (14.42505, 50.01) = [0, 1]
   \<and> get_tile_id ex_ext ex_parser (14.42505, 50.01) = Inr 1"
proof -
  have s: "set (get_intersection_tile_ids ex_ext ex_parser (14.42505, 50.01)) \<subseteq> fst ` set (tile_idx ex_parser)"
    unfolding ex_candidates_overlap by (simp add: ex_parser_def)
  have p: "\<forall>i \<in> set (get_intersection_tile_ids ex_ext ex_parser (14.42505, 50.01)).
             polygonal ex_ext (tile_polygons ex_parser ! nat i)"
    unfolding ex_candidates_overlap using ex_polygonal[of 0] ex_polygonal[of 1] by simp
  have pt: "wgs_to_sjtsk ex_ext (snd (14.42505, 50.01)) (fst (14.42505, 50.01)) = (1442505, 5001000)"
    by (simp add: ex_ext_def)
  have c0: "\<not> polygon_contains (normalized_footprint ex_ext (tile_polygons ex_parser ! 0)) (1442505, 5001000)"
    unfolding ex_footprint_0 by (simp add: polygon_contains_def on_boundary_def on_segment_def crosses_def)
  have c1: "polygon_contains (normalized_footprint ex_ext (tile_polygons ex_parser ! 1)) (1442505, 5001000)"
    unfolding ex_footprint_1 by (simp add: polygon_contains_def on_boundary_def on_segment_def crosses_def)
  have "get_tile_id ex_ext ex_parser (14.42505, 50.01) = Inr 1"
    unfolding get_tile_id_resolution[OF ex_parser_built s p] ex_candidates_overlap pt
    using c0 c1 by simp
  then show ?thesis using ex_parser_built ex_candidates_overlap by simp
qed

subsection \<open>Points on a shared boundary\<close>

lemma on_boundary_not_contained: "on_boundary ring p \<Longrightarrow> \<not> polygon_contains ring p"
  by (simp add: polygon_contains_def)

lemma find_None_boundary:
  "\<forall>k \<in> set ids. on_boundary (N k) pt \<Longrightarrow> find (\<lambda>k. polygon_contains (N k) pt) ids = None"
  by (induction ids) (auto simp: on_boundary_not_contained)

lemma find_Some_member: "find P xs = Some x \<Longrightarrow> x \<in> set xs \<and> P x"
  by (induction xs) (auto split: if_splits)

lemma get_tile_id_Inr:
  assumes "Dmr5gParser dir doc = Inr self"
    and "set (get_intersection_tile_ids E self point) \<subseteq> fst ` set (tile_idx self)"
    and "\<forall>i \<in> set (get_intersection_tile_ids E self point). polygonal E (tile_polygons self ! nat i)"
    and "get_tile_id E self point = Inr k"
  shows "k \<in> set (get_intersection_tile_ids E self point)
     \<and> polygon_contains (normalized_footprint E (tile_polygons self ! nat k))
           (wgs_to_sjtsk E (snd point) (fst point))"
proof (cases "get_intersection_tile_ids E self point")
  case Nil
  then show ?thesis using get_tile_id_cases[OF assms(1-3)] assms(4) by simp
next
  case (Cons i rest)
  note c1 = Cons
  show ?thesis
  proof (cases rest)
    case Nil
    then show ?thesis
      using get_tile_id_cases[OF assms(1-3)] assms(4) c1 by (simp split: if_splits)
  next
    case (Cons j rest')
    have "find (\<lambda>k. polygon_contains (normalized_footprint E (tile_polygons self ! nat k))
                 (wgs_to_sjtsk E (snd point) (fst point))) (i # j # rest') = Some k"
    proof (cases "find (\<lambda>k. polygon_contains (normalized_footprint E (tile_polygons self ! nat k))
                 (wgs_to_sjtsk E (snd point) (fst point))) (i # j # rest')")
      case None
      then show ?thesis
        using get_tile_id_cases[OF assms(1-3)] assms(4) unfolding c1 Cons by simp
    next
      case (Some k')
      then show ?thesis
        using get_tile_id_cases[OF assms(1-3)] assms(4) unfolding c1 Cons by simp
    qed
    from find_Some_member[OF this] show ?thesis unfolding c1 Cons by simp
  qed
qed

lemma get_tile_id_none_contains:
  assumes "Dmr5gParser dir doc = Inr self"
    and "set (get_intersection_tile_ids E self point) \<subseteq> fst ` set (tile_idx self)"
    and "\<forall>i \<in> set (get_intersection_tile_ids E self point). polygonal E (tile_polygons self ! nat i)"
    and "\<forall>i \<in> set (get_intersection_tile_ids E self point).
           \<not> polygon_contains (normalized_footprint E (tile_polygons self ! nat i))
               (wgs_to_sjtsk E (snd point) (fst point))"
  shows "get_tile_id E self point =
     Inl (PointOutOfTileError
            (case get_intersection_tile_ids E self point of
               [] \<Rightarrow> NoTileFound | [i] \<Rightarrow> OnlyOneSelected | i # j # rest \<Rightarrow> NoneOfSelected)
            point)"
proof (cases "get_intersection_tile_ids E self point")
  case Nil
  then show ?thesis using get_tile_id_cases[OF assms(1-3)] by simp
next
  case (Cons i rest)
  note c1 = Cons
  show ?thesis
  proof (cases rest)
    case Nil
    then show ?thesis
      using get_tile_id_cases[OF assms(1-3)] assms(4) c1 by simp
  next
    case (Cons j rest')
    have "find (\<lambda>k. polygon_contains (normalized_footprint E (tile_polygons self ! nat k))
                 (wgs_to_sjtsk E (snd point) (fst point))) (get_intersection_tile_ids E self point) = None"
      using assms(4) by (simp add: find_None_iff)
    then have "find (\<lambda>k. polygon_contains (normalized_footprint E (tile_polygons self ! nat k))
                 (wgs_to_sjtsk E (snd point) (fst point))) (i # j # rest') = None"
      unfolding c1 Cons .
    then show ?thesis
      unfolding get_tile_id_cases[OF assms(1-3)] c1 Cons by (simp only: list.case option.case)
  qed
qed

text \<open>
  Claim C2, as amended. For a constructed parser and a query point, when the index
  answers with ids it holds and the candidates' footprints are polygonal: \<open>get_tile_id\<close>
  never returns a tile on the boundary of whose normalized footprint the planar image of
  the point lies, so for a point on the edge two adjacent normalized footprints share it
  returns neither of the two. An id it returns is that of a candidate whose normalized
  footprint contains the point; when no candidate's does, and so when the point lies on
  the boundary of every candidate's, it fails with \<open>PointOutOfTileError\<close>, "none of
  selected tiles contains the point" with two candidates or more. The result is a
  function of the parser and the point, so repeated calls agree.
\<close>

theorem get_tile_id_on_shared_boundary:
  assumes "Dmr5gParser dir doc = Inr self"
    and "set (get_intersection_tile_ids E self point) \<subseteq> fst ` set (tile_idx self)"
    and "\<forall>i \<in> set (get_intersection_tile_ids E self point). polygonal E (tile_polygons self ! nat i)"
  shows "(\<forall>i. on_boundary (normalized_footprint E (tile_polygons self ! nat i))
               (wgs_to_sjtsk E (snd point) (fst point))
             \<longrightarrow> get_tile_id E self point \<noteq> Inr i)
     \<and> (\<forall>k. get_tile_id E self point = Inr k \<longrightarrow>
             k \<in> set (get_intersection_tile_ids E self point)
             \<and> polygon_contains (normalized_footprint E (tile_polygons self ! nat k))
                   (wgs_to_sjtsk E (snd point) (fst point)))
     \<and> ((\<forall>i \<in> set (get_intersection_tile_ids E self point).
             \<not> polygon_contains (normalized_footprint E (tile_polygons self ! nat i))
                 (wgs_to_sjtsk E (snd point) (fst point)))
          \<longrightarrow> get_tile_id E self point =
                Inl (PointOutOfTileError
                       (case get_intersection_tile_ids E self point of
                          [] \<Rightarrow> NoTileFound | [i] \<Rightarrow> OnlyOneSelected | i # j # rest \<Rightarrow> NoneOfSelected)
                       point))
     \<and> ((\<forall>i \<in> set (get_intersection_tile_ids E self point).
             on_boundary (normalized_footprint E (tile_polygons self ! nat i))
               (wgs_to_sjtsk E (snd point) (fst point)))
          \<longrightarrow> get_tile_id E self point =
                Inl (PointOutOfTileError
                       (case get_intersection_tile_ids E self point of
                          [] \<Rightarrow> NoTileFound | [i] \<Rightarrow> OnlyOneSelected | i # j # rest \<Rightarrow> NoneOfSelected)
                       point))"
proof (intro conjI allI impI)
  fix i
  assume b: "on_boundary (normalized_footprint E (tile_polygons self ! nat i))
               (wgs_to_sjtsk E (snd point) (fst point))"
  show "get_tile_id E self point \<noteq> Inr i"
  proof
    assume "get_tile_id E self point = Inr i"
    from get_tile_id_Inr[OF assms this] on_boundary_not_contained[OF b] show False by simp
  qed
next
  fix k
  assume r: "get_tile_id E self point = Inr k"
  from get_tile_id_Inr[OF assms r]
  show "k \<in> set (get_intersection_tile_ids E self point)"
    and "polygon_contains (normalized_footprint E (tile_polygons self ! nat k))
           (wgs_to_sjtsk E (snd point) (fst point))"
    by simp_all
next
  assume "\<forall>i \<in> set (get_intersection_tile_ids E self point).
             \<not> polygon_contains (normalized_footprint E (tile_polygons self ! nat i))
                 (wgs_to_sjtsk E (snd point) (fst point))"
  then show "get_tile_id E self point =
                Inl (PointOutOfTileError
                       (case get_intersection_tile_ids E self point of
                          [] \<Rightarrow> NoTileFound | [i] \<Rightarrow> OnlyOneSelected | i # j # rest \<Rightarrow> NoneOfSelected)
                       point)"
    by (rule get_tile_id_none_contains[OF assms])
next
  assume "\<forall>i \<in> set (get_intersection_tile_ids E self point).
             on_boundary (normalized_footprint E (tile_polygons self ! nat i))
               (wgs_to_sjtsk E (snd point) (fst point))"
  then have "\<forall>i \<in> set (get_intersection_tile_ids E self point).
             \<not> polygon_contains (normalized_footprint E (tile_polygons self ! nat i))
                 (wgs_to_sjtsk E (snd point) (fst point))"
    using on_boundary_not_contained by blast
  then show "get_tile_id E self point =
                Inl (PointOutOfTileError
                       (case get_intersection_tile_ids E self point of
                          [] \<Rightarrow> NoTileFound | [i] \<Rightarrow> OnlyOneSelected | i # j # rest \<Rightarrow> NoneOfSelected)
                       point)"
    by (rule get_tile_id_none_contains[OF assms])
qed

lemma ex_footprint_2:
  "normalized_footprint ex_ext (tile_polygons ex_parser ! 2) =
     [(1440000, 5002000), (1442500, 5002000), (1442500, 5004000), (1440000, 5004000), (1440000, 5002000)]"
  by (simp add: normalized_footprint_def planar_ring_def close_ring_def ex_ext_def ex_parser_def
      snap_vertex_def snap_def pymod_def Let_def)

lemma ex_candidates_corner:
  "get_intersection_tile_ids ex_ext ex_parser (14.425, 50.02) = [0, 1, 2]"
  by (simp add: get_intersection_tile_ids_def ex_ext_def ex_parser_def)

lemma ex_candidates_edge:
  "get_intersection_tile_ids ex_ext ex_parser (14.425, 50.01) = [0, 1]"
  by (simp add: get_intersection_tile_ids_def ex_ext_def ex_parser_def)

lemma ex_candidates_edge_top:
  "get_intersection_tile_ids ex_ext ex_parser (14.425, 50.01995) = [0, 1, 2]"
  by (simp add: get_intersection_tile_ids_def ex_ext_def ex_parser_def)

text \<open>
  The point with longitude 14.425 and latitude 50.01995 lies on the edge tiles 0 and 1
  share, just below the footprint of tile 2, which is a candidate as well: the point is
  not on the boundary of tile 2, and no tile is returned.
\<close>

theorem get_tile_id_on_shared_boundary_witness:
  "Dmr5gParser ''cache/'' ex_doc = Inr ex_parser
   \<and> get_intersection_tile_ids ex_ext ex_parser (14.425, 50.01995) = [0, 1, 2]
   \<and> wgs_to_sjtsk ex_ext 50.01995 14.425 = (1442500, 5001995)
   \<and> on_boundary (normalized_footprint ex_ext (tile_polygons ex_parser ! 0)) (1442500, 5001995)
   \<and> on_boundary (normalized_footprint ex_ext (tile_polygons ex_parser ! 1)) (1442500, 5001995)
   \<and> \<not> on_boundary (normalized_footprint ex_ext (tile_polygons ex_parser ! 2)) (1442500, 5001995)
   \<and> get_tile_id ex_ext ex_parser (14.425, 50.01995) \<noteq> Inr 0
   \<and> get_tile_id ex_ext ex_parser (14.425, 50.01995) \<noteq> Inr 1
   \<and> get_tile_id ex_ext ex_parser (14.425, 50.01995)
       = Inl (PointOutOfTileError NoneOfSelected (14.425, 50.01995))"
proof -
  have s: "set (get_intersection_tile_ids ex_ext ex_parser (14.425, 50.01995)) \<subseteq> fst ` set (tile_idx ex_parser)"
    unfolding ex_candidates_edge_top by (simp add: ex_parser_def)
  have p: "\<forall>i \<in> set (get_intersection_tile_ids ex_ext ex_parser (14.425, 50.01995)).
             polygonal ex_ext (tile_polygons ex_parser ! nat i)"
    unfolding ex_candidates_edge_top using ex_polygonal[of 0] ex_polygonal[of 1] ex_polygonal[of 2]
    by (simp add: eval_nat_numeral)
  have pt: "wgs_to_sjtsk ex_ext 50.01995 14.425 = (1442500, 5001995)"
    by (simp add: ex_ext_def)
  have pt': "wgs_to_sjtsk ex_ext (snd (14.425, 50.01995)) (fst (14.425, 50.01995)) = (1442500, 5001995)"
    using pt by simp
  have b0: "on_boundary (normalized_footprint ex_ext (tile_polygons ex_parser ! 0)) (1442500, 5001995)"
    unfolding ex_footprint_0 by (simp add: on_boundary_def on_segment_def)
  have b1: "on_boundary (normalized_footprint ex_ext (tile_polygons ex_parser ! 1)) (1442500, 5001995)"
    unfolding ex_footprint_1 by (simp add: on_boundary_def on_segment_def)
  have b2: "\<not> on_boundary (normalized_footprint ex_ext (tile_polygons ex_parser ! 2)) (1442500, 5001995)"
    unfolding ex_footprint_2 by (simp add: on_boundary_def on_segment_def)
  have c2: "\<not> polygon_contains (normalized_footprint ex_ext (tile_polygons ex_parser ! 2)) (1442500, 5001995)"
    unfolding ex_footprint_2 by (simp add: polygon_contains_def on_boundary_def on_segment_def crosses_def)
  have n: "\<forall>i \<in> set (get_intersection_tile_ids ex_ext ex_parser (14.425, 50.01995)).
             \<not> polygon_contains (normalized_footprint ex_ext (tile_polygons ex_parser ! nat i))
                 (wgs_to_sjtsk ex_ext (snd (14.425, 50.01995)) (fst (14.425, 50.01995)))"
    unfolding ex_candidates_edge_top pt'
    using on_boundary_not_contained[OF b0] on_boundary_not_contained[OF b1] c2
    by (simp add: eval_nat_numeral)
  note t = get_tile_id_on_shared_boundary[OF ex_parser_built s p, unfolded pt']
  have r0: "get_tile_id ex_ext ex_parser (14.425, 50.01995) \<noteq> Inr 0"
    using t b0 by (metis nat_0)
  have r1: "get_tile_id ex_ext ex_parser (14.425, 50.01995) \<noteq> Inr 1"
    using t b1 by (metis nat_one_as_int)
  have f: "get_tile_id ex_ext ex_parser (14.425, 50.01995)
       = Inl (PointOutOfTileError NoneOfSelected (14.425, 50.01995))"
    using t n unfolding pt' ex_candidates_edge_top by simp
  show ?thesis
    using ex_parser_built ex_candidates_edge_top pt b0 b1 b2 r0 r1 f by simp
qed

text \<open>
  Tiles 0 and 1 share the edge \<open>x = 1442500\<close> of their normalized footprints. The point
  with longitude 14.425 and latitude 50.01 lies on it, both tiles are candidates, and
  neither is returned.
\<close>

theorem get_tile_id_fails_on_shared_edge:
  "get_intersection_tile_ids ex_ext ex_parser (14.425, 50.01) = [0, 1]
   \<and> wgs_to_sjtsk ex_ext 50.01 14.425 = (1442500, 5001000)
   \<and> on_boundary (normalized_footprint ex_ext (tile_polygons ex_parser ! 0)) (1442500, 5001000)
   \<and> on_boundary (normalized_footprint ex_ext (tile_polygons ex_parser ! 1)) (1442500, 5001000)
   \<and> get_tile_id ex_ext ex_parser (14.425, 50.01)
       = Inl (PointOutOfTileError NoneOfSelected (14.425, 50.01))"
proof -
  have s: "set (get_intersection_tile_ids ex_ext ex_parser (14.425, 50.01)) \<subseteq> fst ` set (tile_idx ex_parser)"
    unfolding ex_candidates_edge by (simp add: ex_parser_def)
  have p: "\<forall>i \<in> set (get_intersection_tile_ids ex_ext ex_parser (14.425, 50.01)).
             polygonal ex_ext (tile_polygons ex_parser ! nat i)"
    unfolding ex_candidates_edge using ex_polygonal[of 0] ex_polygonal[of 1] by simp
  have pt: "wgs_to_sjtsk ex_ext 50.01 14.425 = (1442500, 5001000)"
    by (simp add: ex_ext_def)
  have b0: "on_boundary (normalized_footprint ex_ext (tile_polygons ex_parser ! 0)) (1442500, 5001000)"
    unfolding ex_footprint_0 by (simp add: on_boundary_def on_segment_def)
  have b1: "on_boundary (normalized_footprint ex_ext (tile_polygons ex_parser ! 1)) (1442500, 5001000)"
    unfolding ex_footprint_1 by (simp add: on_boundary_def on_segment_def)
  have "get_tile_id ex_ext ex_parser (14.425, 50.01)
       = Inl (PointOutOfTileError NoneOfSelected (14.425, 50.01))"
    unfolding get_tile_id_cases[OF ex_parser_built s p] ex_candidates_edge
    using b0 b1 pt by (simp add: on_boundary_not_contained)
  then show ?thesis using ex_candidates_edge pt b0 b1 by simp
qed

subsection \<open>Radius resolution\<close>

lemma binade_unfold:
  "binade n a e =
     (if n = 0 then e
      else if 2 \<le> a then binade (n - 1) (a / 2) (e + 1)
      else if a < 1 then binade (n - 1) (a * 2) (e - 1)
      else e)"
  by (cases n) simp_all

lemmas round_f64_eval = round_f64_def Let_def binade_unfold round_half_even_def






















text \<open>
  Where the rounding decides: a circle that over the reals just reaches the upper right
  corner of a tile. The rounded squared distance to the corner exceeds the rounded
  squared radius, and the tile is not selected.
\<close>

lemma circle_rect_test_corner:
  assumes "\<bar>round_f64 (circle_x c - rect_x rect)\<bar> = dx"
    and "\<bar>round_f64 (circle_y c - rect_y rect)\<bar> = dy"
    and "round_f64 (rect_w rect / 2) = hw" and "round_f64 (rect_h rect / 2) = hh"
    and "\<not> dx > round_f64 (hw + circle_r c)" and "\<not> dy > round_f64 (hh + circle_r c)"
    and "\<not> dx \<le> hw" and "\<not> dy \<le> hh"
    and "round_f64 (dx - hw) = ex" and "round_f64 (dy - hh) = ey"
    and "round_f64 (ex\<^sup>2) = ex2" and "round_f64 (ey\<^sup>2) = ey2"
    and "round_f64 (ex2 + ey2) = cd" and "round_f64 ((circle_r c)\<^sup>2) = r2"
  shows "circle_rect_test c rect = (cd \<le> r2)"
  using assms by (simp add: circle_rect_test_def Let_def)

lemma circle_rect_test_rounding:
  "span_rectangle ex_grid_ring = \<lparr>rect_x = - 738750, rect_y = - 1039000, rect_w = 2500, rect_h = 2000\<rparr>
   \<and> \<not> circle_rect_test ex_circle_tangent (span_rectangle ex_grid_ring)
   \<and> circle_rect_test_exact ex_circle_tangent (span_rectangle ex_grid_ring)"
proof -
  let ?R = "\<lparr>rect_x = - 738750, rect_y = - 1039000, rect_w = 2500, rect_h = 2000\<rparr> :: rectangle"
  have s: "span_rectangle ex_grid_ring = ?R"
    by (simp add: span_rectangle_def rect_of_bounds_def ex_grid_ring_def round_f64_eval)
  have dx: "\<bar>round_f64 (circle_x ex_circle_tangent - rect_x ?R)\<bar> = 11645899631839 / 2 ^ 33"
    by (simp add: ex_circle_tangent_def Circle_def round_f64_eval)
  have dy: "\<bar>round_f64 (circle_y ex_circle_tangent - rect_y ?R)\<bar> = 2450310778613 / 2 ^ 31"
    by (simp add: ex_circle_tangent_def Circle_def round_f64_eval)
  have hw: "round_f64 (rect_w ?R / 2) = 1250" and hh: "round_f64 (rect_h ?R / 2) = 1000"
    by (simp_all add: round_f64_eval)
  have nx: "\<not> 11645899631839 / 2 ^ 33 > round_f64 (1250 + circle_r ex_circle_tangent)"
    by (simp add: ex_circle_tangent_def Circle_def round_f64_eval)
  have ny: "\<not> 2450310778613 / 2 ^ 31 > round_f64 (1000 + circle_r ex_circle_tangent)"
    by (simp add: ex_circle_tangent_def Circle_def round_f64_eval)
  have ox: "\<not> 11645899631839 / 2 ^ 33 \<le> (1250 :: real)" by simp
  have oy: "\<not> 2450310778613 / 2 ^ 31 \<le> (1000 :: real)" by simp
  have ex: "round_f64 (11645899631839 / 2 ^ 33 - 1250) = 908481391839 / 2 ^ 33"
    by (simp add: round_f64_eval)
  have ey: "round_f64 (2450310778613 / 2 ^ 31 - 1000) = 302827130613 / 2 ^ 31"
    by (simp add: round_f64_eval)
  have "((908481391839 :: real) / 2 ^ 33)\<^sup>2 = 825338439317726655801921 / 2 ^ 66"
    by (simp add: power_divide)
  moreover have "round_f64 (825338439317726655801921 / 2 ^ 66) = 6149250561876049 / 2 ^ 39"
    by (simp add: round_f64_eval)
  ultimately have ex2: "round_f64 ((908481391839 / 2 ^ 33)\<^sup>2) = 6149250561876049 / 2 ^ 39"
    by (simp only:)
  have "((302827130613 :: real) / 2 ^ 31)\<^sup>2 = 91704271035302961755769 / 2 ^ 62"
    by (simp add: power_divide)
  moreover have "round_f64 (91704271035302961755769 / 2 ^ 62) = 5466000499445377 / 2 ^ 38"
    by (simp add: round_f64_eval)
  ultimately have ey2: "round_f64 ((302827130613 / 2 ^ 31)\<^sup>2) = 5466000499445377 / 2 ^ 38"
    by (simp only:)
  have cd: "round_f64 (6149250561876049 / 2 ^ 39 + 5466000499445377 / 2 ^ 38) = 4270312890191701 / 2 ^ 37"
    by (simp add: round_f64_eval)
  have "(circle_r ex_circle_tangent)\<^sup>2 = 2292606775882574043894225 / 2 ^ 66"
    by (simp add: ex_circle_tangent_def Circle_def power_divide)
  moreover have "round_f64 (2292606775882574043894225 / 2 ^ 66) = 8540625780383401 / 2 ^ 38"
    by (simp add: round_f64_eval)
  ultimately have r2: "round_f64 ((circle_r ex_circle_tangent)\<^sup>2) = 8540625780383401 / 2 ^ 38"
    by (simp only:)
  have "circle_rect_test ex_circle_tangent ?R
          = ((4270312890191701 / 2 ^ 37 :: real) \<le> 8540625780383401 / 2 ^ 38)"
    using dx dy hw hh nx ny ox oy ex ey ex2 ey2 cd r2 by (rule circle_rect_test_corner)
  then have a: "\<not> circle_rect_test ex_circle_tangent ?R" by simp
  have b: "circle_rect_test_exact ex_circle_tangent ?R"
    by (simp add: circle_rect_test_exact_def ex_circle_tangent_def Circle_def Let_def power_divide)
  show ?thesis using s a b by simp
qed

subsection \<open>The tile download\<close>

lemma get_tile_zip_network_failure:
  "get_tile_xml self i = Inr (Some url) \<Longrightarrow> net_urlopen E url = Inl e \<Longrightarrow> get_tile_zip E self i = Inl e"
  by (simp add: get_tile_zip_def bindE_def open_url_def)

lemma download_tile_except:
  "get_tile_zip E self i = Inl e \<Longrightarrow> download_tile E self fs i = (Inr None, fs)"
  by (simp add: download_tile_def)

text \<open>
  Claim C8, as amended. For every tile ordinal, when the resolution of the tile's
  descriptor fails (\<open>get_tile_zip\<close> raises, as it does when the network request for the
  descriptor fails), \<open>download_tile\<close> returns \<open>None\<close>, raises nothing and leaves the cache
  directory as it was.
\<close>

theorem download_tile_resolution_failure:
  assumes "get_tile_zip E self i = Inl e
           \<or> (\<exists>url. get_tile_xml self i = Inr (Some url) \<and> net_urlopen E url = Inl e)"
  shows "download_tile E self fs i = (Inr None, fs)"
  using assms get_tile_zip_network_failure download_tile_except by blast

lemma ex_tile_xml_0:
  "get_tile_xml ex_parser 0 =
     Inr (Some ''https://atom.cuzk.cz/DMR5G-SJTSK/datasetFeeds/CZ-00025712-CUZK_DMR5G-SJTSK_BENE01.xml'')"
  by (simp add: get_tile_xml_def ex_parser_def ex_doc_def ex_entry_a_def)

theorem download_tile_resolution_failure_witness:
  "get_tile_xml ex_parser 0 =
     Inr (Some ''https://atom.cuzk.cz/DMR5G-SJTSK/datasetFeeds/CZ-00025712-CUZK_DMR5G-SJTSK_BENE01.xml'')
   \<and> net_urlopen ex_ext ''https://atom.cuzk.cz/DMR5G-SJTSK/datasetFeeds/CZ-00025712-CUZK_DMR5G-SJTSK_BENE01.xml''
       = Inl URLError
   \<and> download_tile ex_ext ex_parser ex_files 0 = (Inr None, ex_files)"
proof -
  have n: "net_urlopen ex_ext ''https://atom.cuzk.cz/DMR5G-SJTSK/datasetFeeds/CZ-00025712-CUZK_DMR5G-SJTSK_BENE01.xml''
       = Inl URLError"
    by (simp add: ex_ext_def)
  have "download_tile ex_ext ex_parser ex_files 0 = (Inr None, ex_files)"
    by (rule download_tile_resolution_failure) (use ex_tile_xml_0 n in blast)
  then show ?thesis using ex_tile_xml_0 n by simp
qed

lemma ex_tile_code_0: "get_tile_code ex_parser 0 = Inr ''BENE01''"
  unfolding get_tile_code_def ex_tile_xml_0 bindE_def
  by (simp add: str_find_def py_slice_def Let_def)


lemma ex_tile_zip_0:
  "get_tile_zip ex_ext_no_archive ex_parser 0 =
     Inr (Some ''https://openzu.cuzk.cz/opendata/DMR5G/epsg-5514/BENE01.zip'')"
  unfolding get_tile_zip_def ex_tile_xml_0 bindE_def
  by (simp add: open_url_def ex_ext_no_archive_def ex_ext_def)

text \<open>
  With the descriptor of tile 0 resolved and the download of its archive failing,
  \<open>download_tile\<close> raises the error of \<open>urlretrieve\<close>: the call stands in the \<open>else\<close>
  branch, outside the \<open>try\<close>.
\<close>

theorem download_tile_raises_on_archive_failure:
  "get_tile_zip ex_ext_no_archive ex_parser 0 =
     Inr (Some ''https://openzu.cuzk.cz/opendata/DMR5G/epsg-5514/BENE01.zip'')
   \<and> net_urlretrieve ex_ext_no_archive ''https://openzu.cuzk.cz/opendata/DMR5G/epsg-5514/BENE01.zip''
       = RetrieveFailed URLError None
   \<and> download_tile ex_ext_no_archive ex_parser ex_files 0 = (Inl URLError, ex_files)"
proof -
  have r: "net_urlretrieve ex_ext_no_archive ''https://openzu.cuzk.cz/opendata/DMR5G/epsg-5514/BENE01.zip''
       = RetrieveFailed URLError None"
    by (simp add: ex_ext_no_archive_def ex_ext_def)
  have "download_tile ex_ext_no_archive ex_parser ex_files 0 = (Inl URLError, ex_files)"
    unfolding download_tile_def ex_tile_zip_0 ex_tile_code_0
    by (simp add: r Let_def)
  then show ?thesis using ex_tile_zip_0 r by simp
qed

subsection \<open>Normalizing twice\<close>

lemma round_f64_2500: "round_f64 2500 = 2500"
  unfolding round_f64_def Let_def
  by (simp add: binade_unfold round_half_even_def)

lemma round_f64_below_one: "round_f64 ex_below_one = ex_below_one"
  unfolding round_f64_def Let_def ex_below_one_def
  by (simp add: binade_unfold round_half_even_def)

lemma round_f64_below_one_plus: "round_f64 (ex_below_one + 2500) = 2499"
  unfolding round_f64_def Let_def ex_below_one_def
  by (simp add: binade_unfold round_half_even_def)

lemma round_f64_tiny: "round_f64 ex_tiny = ex_tiny"
  unfolding round_f64_def Let_def ex_tiny_def
  by (simp add: binade_unfold round_half_even_def)

lemma round_f64_small: "round_f64 1 = 1" "round_f64 0 = 0" "round_f64 2000 = 2000"
  unfolding round_f64_def Let_def
  by (simp_all add: binade_unfold round_half_even_def)

lemma fl_mod_exact:
  assumes "0 < s"
  shows "fl_mod (\<lambda>v. v) x s = pymod x s"
proof (cases "0 \<le> x / s")
  case True
  then have p: "py_int (x / s) = \<lfloor>x / s\<rfloor>" by (simp add: py_int_def)
  have "s * real_of_int \<lfloor>x / s\<rfloor> \<le> s * (x / s)"
    using assms by (intro mult_left_mono) simp_all
  then have "s * real_of_int \<lfloor>x / s\<rfloor> \<le> x"
    using assms by simp
  then show ?thesis
    using assms by (simp add: fl_mod_def pymod_def p Let_def not_less)
next
  case False
  then have p: "py_int (x / s) = \<lceil>x / s\<rceil>" by (simp add: py_int_def)
  show ?thesis
  proof (cases "x / s = of_int \<lfloor>x / s\<rfloor>")
    case True
    then have "\<lceil>x / s\<rceil> = \<lfloor>x / s\<rfloor>" by (metis ceiling_of_int)
    moreover have "x = s * of_int \<lfloor>x / s\<rfloor>"
      using True assms by (simp add: field_simps)
    ultimately show ?thesis
      using assms by (simp add: fl_mod_def pymod_def p Let_def)
  next
    case False
    then have c: "\<lceil>x / s\<rceil> = \<lfloor>x / s\<rfloor> + 1"
      by (metis ceiling_altdef)
    have "x / s < of_int \<lceil>x / s\<rceil>"
      using False c by (metis le_of_int_ceiling less_le ceiling_of_int floor_of_int)
    then have "s * (x / s) < s * of_int \<lceil>x / s\<rceil>"
      using assms by (intro mult_strict_left_mono) simp_all
    then have "x < s * of_int \<lceil>x / s\<rceil>"
      using assms by simp
    then have m: "x - s * of_int \<lceil>x / s\<rceil> < 0" by simp
    show ?thesis
      using assms m by (simp add: fl_mod_def pymod_def p Let_def c algebra_simps)
  qed
qed

lemma fl_snap_exact: "0 < s \<Longrightarrow> fl_snap (\<lambda>v. v) s c = snap s c"
  by (simp add: fl_snap_def snap_def fl_mod_exact)

lemma fix_tile_coords_fl_exact: "fix_tile_coords_fl (\<lambda>v. v) tile = fix_tile_coords tile"
  by (simp add: fix_tile_coords_fl_def fix_tile_coords_eq snap_vertex_def[abs_def] fl_snap_exact)

lemma pymod_grid: "s \<noteq> 0 \<Longrightarrow> pymod (s * of_int k) s = 0"
  by (simp add: pymod_def)

lemma snap_grid: "\<exists>k. snap s c = s * of_int k"
proof -
  have a: "c - pymod c s = s * of_int \<lfloor>c / s\<rfloor>" by (simp add: pymod_def)
  have b: "c + (s - pymod c s) = s * of_int (\<lfloor>c / s\<rfloor> + 1)"
    by (simp add: pymod_def algebra_simps)
  show ?thesis unfolding snap_def Let_def using a b by (metis (full_types))
qed

lemma snap_on_grid: "0 < s \<Longrightarrow> snap s (s * of_int k) = s * of_int k"
  by (simp add: snap_def pymod_grid)

lemma snap_idem: "0 < s \<Longrightarrow> snap s (snap s c) = snap s c"
  using snap_grid[of s c] snap_on_grid[of s] by auto

lemma snap_vertex_idem: "snap_vertex (snap_vertex v) = snap_vertex v"
  by (simp add: snap_vertex_def snap_idem)

lemma fix_tile_coords_twice:
  assumes "is_ring P"
  shows "bindE (fix_tile_coords P) fix_tile_coords = fix_tile_coords P"
proof -
  have "fix_tile_coords (map snap_vertex P) = Inr (map snap_vertex (map snap_vertex P))"
    using assms by (intro fix_tile_coords_ring is_ring_map)
  then show ?thesis
    using assms by (simp add: fix_tile_coords_ring bindE_def snap_vertex_idem)
qed

lemma fl_snap_on_grid:
  assumes "0 < s" "pymod c s = 0" "rnd c = c"
  shows "fl_snap rnd s c = c"
proof -
  have c: "c = s * of_int \<lfloor>c / s\<rfloor>" using assms(2) by (simp add: pymod_def)
  have q: "c / s = of_int \<lfloor>c / s\<rfloor>"
    using assms(1) c by (metis less_irrefl nonzero_mult_div_cancel_left)
  have "py_int (c / s) = \<lfloor>c / s\<rfloor>"
    by (subst q) (simp only: py_int_of_int floor_of_int)
  then have "fl_mod rnd c s = 0"
    using c by (simp add: fl_mod_def Let_def)
  then show ?thesis using assms(1,3) by (simp add: fl_snap_def)
qed

lemma fix_tile_coords_fl_on_grid:
  assumes "is_ring P"
    and "\<forall>v \<in> set P. on_grid v \<and> rnd (fst v) = fst v \<and> rnd (snd v) = snd v"
  shows "fix_tile_coords_fl rnd P = Inr P"
proof -
  have "map (\<lambda>v. (fl_snap rnd 2500 (fst v), fl_snap rnd 2000 (snd v))) P = map (\<lambda>v. v) P"
    using assms(2) by (intro map_cong) (auto simp: on_grid_def fl_snap_on_grid)
  then show ?thesis
    using assms(1) by (simp add: fix_tile_coords_fl_def Polygon_ring)
qed

lemma fl_mod_below_one: "fl_mod round_f64 ex_below_one 2500 = 2499"
proof -
  have "py_int (ex_below_one / 2500) = 0"
    by (simp add: py_int_def ex_below_one_def ceiling_eq_iff)
  moreover have "ex_below_one < 0" by (simp add: ex_below_one_def)
  ultimately show ?thesis
    using round_f64_below_one_plus by (simp add: fl_mod_def Let_def add.commute)
qed

lemma fl_snap_below_one: "fl_snap round_f64 2500 ex_below_one = ex_tiny"
proof -
  have "fl_snap round_f64 2500 ex_below_one = round_f64 (ex_below_one + round_f64 1)"
    by (simp add: fl_snap_def fl_mod_below_one)
  also have "\<dots> = round_f64 (ex_below_one + 1)" by (simp only: round_f64_small(1))
  also have "ex_below_one + 1 = ex_tiny" by (simp add: ex_below_one_def ex_tiny_def)
  finally show ?thesis by (simp only: round_f64_tiny)
qed

lemma fl_mod_tiny: "fl_mod round_f64 ex_tiny 2500 = ex_tiny"
proof -
  have "py_int (ex_tiny / 2500) = 0"
    by (simp add: py_int_def floor_eq_iff ex_tiny_def)
  then show ?thesis by (simp add: fl_mod_def Let_def ex_tiny_def)
qed

lemma fl_snap_tiny: "fl_snap round_f64 2500 ex_tiny = 0"
proof -
  have "ex_tiny < 2500 / 2" by (simp add: ex_tiny_def)
  then have "fl_snap round_f64 2500 ex_tiny = round_f64 (ex_tiny - ex_tiny)"
    by (simp only: fl_snap_def fl_mod_tiny Let_def if_True)
  then show ?thesis by (simp add: round_f64_small(2))
qed

lemma fl_snap_fixed:
  "fl_snap round_f64 2500 2500 = 2500" "fl_snap round_f64 2000 2000 = 2000"
  "fl_snap round_f64 2000 0 = 0"
  using round_f64_2500 round_f64_small by (simp_all add: fl_snap_on_grid pymod_def)

text \<open>
  Rounding matters only next to zero, outside the range of the planar system (whose
  coordinates over the survey's territory lie below \<open>- 400000\<close>): in float64 the footprint
  with x coordinate \<open>- (1 - 1 / 2 ^ 53)\<close> is normalized to one with x coordinate
  \<open>1 / 2 ^ 53\<close>, off the grid by one rounding error, and normalizing that gives x
  coordinate 0.
\<close>

lemma fix_tile_coords_fl_near_zero:
  "round_f64 ex_below_one = ex_below_one
   \<and> fix_tile_coords_fl round_f64 ex_ring_near_zero = Inr ex_ring_once
   \<and> fix_tile_coords_fl round_f64 ex_ring_once = Inr ex_ring_twice
   \<and> bindE (fix_tile_coords_fl round_f64 ex_ring_near_zero) (fix_tile_coords_fl round_f64)
       \<noteq> fix_tile_coords_fl round_f64 ex_ring_near_zero"
proof -
  have a: "fix_tile_coords_fl round_f64 ex_ring_near_zero = Inr ex_ring_once"
    by (simp add: fix_tile_coords_fl_def ex_ring_near_zero_def ex_ring_once_def
        fl_snap_below_one fl_snap_fixed Polygon_def Let_def)
  have b: "fix_tile_coords_fl round_f64 ex_ring_once = Inr ex_ring_twice"
    by (simp add: fix_tile_coords_fl_def ex_ring_once_def ex_ring_twice_def
        fl_snap_tiny fl_snap_fixed Polygon_def Let_def)
  have c: "ex_ring_twice \<noteq> ex_ring_once"
    by (simp add: ex_ring_once_def ex_ring_twice_def ex_tiny_def)
  show ?thesis using round_f64_below_one a b c by (simp add: bindE_def)
qed

text \<open>
  Claim C4. For every planar polygon \<open>P\<close>, with coordinates read as exact reals:
  normalizing twice gives what normalizing once gives, and a polygon whose vertices all
  lie on the 2500 by 2000 grid is returned unchanged. The normalizer with the identity as
  rounding is the exact one, and a polygon on the grid is also returned unchanged when
  every result is rounded to float64, for grid coordinates that float64 represents.
\<close>

theorem fix_tile_coords_idempotent_exact:
  assumes "is_ring P"
  shows "bindE (fix_tile_coords P) fix_tile_coords = fix_tile_coords P
     \<and> fix_tile_coords_fl (\<lambda>v. v) P = fix_tile_coords P
     \<and> ((\<forall>v \<in> set P. on_grid v) \<longrightarrow> fix_tile_coords P = Inr P)
     \<and> ((\<forall>v \<in> set P. on_grid v \<and> round_f64 (fst v) = fst v \<and> round_f64 (snd v) = snd v)
          \<longrightarrow> fix_tile_coords_fl round_f64 P = Inr P)"
proof -
  have a: "bindE (fix_tile_coords P) fix_tile_coords = fix_tile_coords P"
    using assms by (rule fix_tile_coords_twice)
  have b: "fix_tile_coords_fl (\<lambda>v. v) P = fix_tile_coords P"
    by (rule fix_tile_coords_fl_exact)
  have c: "(\<forall>v \<in> set P. on_grid v) \<longrightarrow> fix_tile_coords P = Inr P"
    using fix_tile_coords_fl_on_grid[OF assms, of "\<lambda>v. v"] b by simp
  have d: "(\<forall>v \<in> set P. on_grid v \<and> round_f64 (fst v) = fst v \<and> round_f64 (snd v) = snd v)
          \<longrightarrow> fix_tile_coords_fl round_f64 P = Inr P"
    using fix_tile_coords_fl_on_grid[OF assms] by blast
  show ?thesis using a b c d by blast
qed

lemma round_f64_grid_values:
  "round_f64 (-740000) = -740000" "round_f64 (-737500) = -737500"
  "round_f64 (-1040000) = -1040000" "round_f64 (-1038000) = -1038000"
  unfolding round_f64_def Let_def
  by (simp_all add: binade_unfold round_half_even_def)

theorem fix_tile_coords_idempotent_exact_witness:
  "is_ring ex_grid_ring \<and> is_ring ex_ring
   \<and> fix_tile_coords ex_grid_ring = Inr ex_grid_ring
   \<and> fix_tile_coords_fl round_f64 ex_grid_ring = Inr ex_grid_ring
   \<and> fix_tile_coords ex_ring = Inr ex_grid_ring
   \<and> bindE (fix_tile_coords ex_ring) fix_tile_coords = Inr ex_grid_ring"
proof -
  have r: "is_ring ex_grid_ring" by (simp add: is_ring_def ex_grid_ring_def)
  have r': "is_ring ex_ring" by (simp add: is_ring_def ex_ring_def)
  have g: "\<forall>v \<in> set ex_grid_ring. on_grid v"
    by (simp add: ex_grid_ring_def on_grid_def pymod_def)
  have g': "\<forall>v \<in> set ex_grid_ring.
      on_grid v \<and> round_f64 (fst v) = fst v \<and> round_f64 (snd v) = snd v"
    using round_f64_grid_values by (simp add: ex_grid_ring_def on_grid_def pymod_def)
  have once: "fix_tile_coords ex_ring = Inr ex_grid_ring"
    unfolding fix_tile_coords_ring[OF r']
    by (simp add: ex_ring_def ex_grid_ring_def snap_vertex_def snap_def pymod_def Let_def)
  show ?thesis
    using r r' g g' once
      fix_tile_coords_idempotent_exact[OF r]
      fix_tile_coords_idempotent_exact[OF r']
    by simp
qed

end
